theory Spec2Isabelle
  imports Complex_Main "HOL-Library.AList"
begin

section \<open>Python values, exceptions and text helpers\<close>

text \<open>
  Python objects that cross the interfaces of the program: tool arguments decoded from
  JSON, tool results, parameter defaults and the JSON-Schema dictionaries. A dictionary is
  an association list in insertion order (its keys are strings everywhere in this
  program); \<open>PyObj\<close> stands for any other object, named by a label.
\<close>

datatype pyval =
    PyNone
  | PyBool bool
  | PyInt int
  | PyFloat real
  | PyStr string
  | PyList "pyval list"
  | PyDict "(string \<times> pyval) list"
  | PyObj string

type_synonym pydict = "(string \<times> pyval) list"

text \<open>
  Exception classes, as far as the handlers of the program tell them apart.
  \<open>OtherException\<close> is any further class derived from \<open>Exception\<close> (and from none of
  the classes listed), \<open>BaseOnly\<close> any class derived from \<open>BaseException\<close> but not from
  \<open>Exception\<close> (\<open>SystemExit\<close>, \<open>KeyboardInterrupt\<close>, \<open>CancelledError\<close>), both with the
  class name. An exception value carries its class and the text \<open>str(e)\<close> gives.
\<close>

datatype exn_class =
    ValueError | TypeError | IndexError | AttributeError | NotImplementedError
  | ImportError | SyntaxError | IndentationError | TabError | TimeoutError
  | JSONDecodeError
  | PolyToolError | ToolError | SandboxError | ProviderError | MCPError | ValidationError
  | OtherException string
  | BaseOnly string

datatype exn = Exn (exn_class: exn_class) (exn_str: string)

fun class_name :: "exn_class \<Rightarrow> string" where
  "class_name ValueError = ''ValueError''"
| "class_name TypeError = ''TypeError''"
| "class_name IndexError = ''IndexError''"
| "class_name AttributeError = ''AttributeError''"
| "class_name NotImplementedError = ''NotImplementedError''"
| "class_name ImportError = ''ImportError''"
| "class_name SyntaxError = ''SyntaxError''"
| "class_name IndentationError = ''IndentationError''"
| "class_name TabError = ''TabError''"
| "class_name TimeoutError = ''TimeoutError''"
| "class_name JSONDecodeError = ''JSONDecodeError''"
| "class_name PolyToolError = ''PolyToolError''"
| "class_name ToolError = ''ToolError''"
| "class_name SandboxError = ''SandboxError''"
| "class_name ProviderError = ''ProviderError''"
| "class_name MCPError = ''MCPError''"
| "class_name ValidationError = ''ValidationError''"
| "class_name (OtherException n) = n"
| "class_name (BaseOnly n) = n"

text \<open>\<open>except Exception\<close> catches every class but the \<open>BaseOnly\<close> ones.\<close>

fun is_Exception :: "exn \<Rightarrow> bool" where
  "is_Exception (Exn (BaseOnly _) _) = False"
| "is_Exception (Exn _ _) = True"

text \<open>\<open>except SyntaxError\<close> catches \<open>SyntaxError\<close> and its two built-in subclasses.\<close>

definition is_SyntaxError :: "exn \<Rightarrow> bool" where
  "is_SyntaxError e = (exn_class e \<in> {SyntaxError, IndentationError, TabError})"

definition is_TimeoutError :: "exn \<Rightarrow> bool" where
  "is_TimeoutError e = (exn_class e = TimeoutError)"


text \<open>
  \<open>ToolError\<close> has no subclass in the program, so an exception is of the \<open>ToolError\<close>
  kind exactly when that is its class (core/exceptions.py).
\<close>

definition is_ToolError :: "exn \<Rightarrow> bool" where
  "is_ToolError e = (exn_class e = ToolError)"

text \<open>The apostrophe and the newline, for the f-strings that contain them.\<close>

definition apos :: string where
  "apos = [CHR 0x27]"

definition nl :: string where
  "nl = [CHR 0x0A]"

text \<open>
  A string is a list of 8-bit characters, read as the code points below 256.
  \<open>str.isspace\<close> holds of twelve of them: tab to carriage return, the four
  separators 28 to 31, the space, and the code points 133 and 160.
\<close>

definition isspace :: "char \<Rightarrow> bool" where
  "isspace c = (of_char c \<in> {9, 10, 11, 12, 13, 28, 29, 30, 31, 32, 133, 160 :: nat})"

definition lstrip :: "string \<Rightarrow> string" where
  "lstrip s = dropWhile isspace s"

definition rstrip :: "string \<Rightarrow> string" where
  "rstrip s = rev (dropWhile isspace (rev s))"

definition strip :: "string \<Rightarrow> string" where
  "strip s = lstrip (rstrip s)"

text \<open>\<open>sep.join(xs)\<close>.\<close>

fun join :: "string \<Rightarrow> string list \<Rightarrow> string" where
  "join sep [] = []"
| "join sep [x] = x"
| "join sep (x # y # ys) = x @ sep @ join sep (y # ys)"

section \<open>Tool (core/types.py)\<close>

datatype ToolSource = NATIVE | MCP | LANGCHAIN

text \<open>
  An executor is called with keyword arguments and, when its result is awaitable, awaited:
  it returns a value or raises, and may change the world \<open>'w\<close> (everything outside the
  program's own data).
\<close>

type_synonym 'w executor = "pydict \<Rightarrow> 'w \<Rightarrow> (exn + pyval) \<times> 'w"

record 'w Tool =
  name :: string
  description :: string
  parameters :: pydict
  source :: ToolSource
  executor :: "'w executor option"

text \<open>
  \<open>Tool.execute(**kwargs)\<close>, called as \<open>tool.execute(**kwargs)\<close>. The method is
  \<open>execute(self, **kwargs)\<close>, so a keyword named \<open>self\<close> cannot be bound and the call
  itself raises \<open>TypeError\<close>. Otherwise the body runs: it raises \<open>ValueError\<close> when no
  executor is bound, and else calls the executor and awaits its result.
\<close>

definition Tool_execute :: "'w Tool \<Rightarrow> pydict \<Rightarrow> 'w \<Rightarrow> (exn + pyval) \<times> 'w" where
  "Tool_execute t kwargs w =
     (if ''self'' \<in> set (map fst kwargs)
      then (Inl (Exn TypeError (''Tool.execute() got multiple values for argument ''
                                 @ apos @ ''self'' @ apos)), w)
      else case executor t of
             None \<Rightarrow> (Inl (Exn ValueError (''Tool '' @ apos @ name t @ apos @ '' has no executor'')), w)
           | Some f \<Rightarrow> f kwargs w)"

definition set_executor :: "'w Tool \<Rightarrow> 'w executor \<Rightarrow> 'w Tool" where
  "set_executor t f = t\<lparr>executor := Some f\<rparr>"

section \<open>Callables and their signatures (what \<open>inspect\<close> and \<open>typing\<close> report)\<close>

datatype param_kind =
  POSITIONAL_ONLY | POSITIONAL_OR_KEYWORD | VAR_POSITIONAL | KEYWORD_ONLY | VAR_KEYWORD

text \<open>\<open>pdefault = None\<close> is \<open>inspect.Parameter.empty\<close>: the parameter has no default.\<close>

record param =
  pname :: string
  pkind :: param_kind
  pdefault :: "pyval option"

text \<open>
  Metadata of an \<open>Annotated\<close> hint: a string, a pydantic \<open>FieldInfo\<close> with its optional
  description, or anything else.
\<close>

datatype annotation = AnnStr string | AnnField "string option" | AnnOther

text \<open>
  A resolved type hint. \<open>HList args\<close> is \<open>list\<close> or \<open>list[...]\<close> with its type
  arguments, \<open>HModel r\<close> a subclass of pydantic's \<open>BaseModel\<close> with what its
  \<open>model_json_schema()\<close> returns or raises, \<open>HOther\<close> any other hint.
\<close>

datatype hint =
    HNoneType | HStr | HInt | HFloat | HBool
  | HList "hint list"
  | HDict
  | HAnnotated hint "annotation list"
  | HModel "exn + pydict"
  | HOther

text \<open>
  A callable as the program sees it: \<open>__name__\<close> and \<open>__doc__\<close> when it has them, the
  result of \<open>inspect.signature\<close> and of \<open>get_type_hints\<close> (either may raise), its
  behaviour when called, and the \<open>tool\<close> attribute the decorator leaves on it.
\<close>

record 'w pyfunc =
  fn_name :: "string option"
  fn_doc :: "string option"
  fn_signature :: "exn + param list"
  fn_hints :: "exn + (string \<times> hint) list"
  fn_call :: "'w executor"
  fn_tool :: "'w Tool option"

text \<open>\<open>get_tool_from_func\<close> (tools/decorator.py).\<close>

definition get_tool_from_func :: "'w pyfunc \<Rightarrow> 'w Tool option" where
  "get_tool_from_func func = fn_tool func"

section \<open>ToolRegistry (tools/registry.py)\<close>

text \<open>The dictionary \<open>self._tools\<close>, in insertion order.\<close>

type_synonym 'w registry = "(string \<times> 'w Tool) list"

text \<open>What \<open>register\<close> may be handed: a Tool, a callable, or an object of another type.\<close>

datatype 'w registrable = IsTool "'w Tool" | IsCallable "'w pyfunc" | NotCallable string

text \<open>
  The first part of \<open>register\<close>: the Tool to store. An undecorated callable raises
  \<open>ToolError\<close>; building that message reads \<open>__name__\<close>, which raises
  \<open>AttributeError\<close> on a callable without one.
\<close>

definition register_resolve :: "'w registrable \<Rightarrow> exn + 'w Tool" where
  "register_resolve tool_or_func =
     (case tool_or_func of
        IsTool t \<Rightarrow> Inr t
      | IsCallable f \<Rightarrow>
          (case get_tool_from_func f of
             Some t \<Rightarrow> Inr t
           | None \<Rightarrow>
               (case fn_name f of
                  None \<Rightarrow> Inl (Exn AttributeError ''object has no attribute __name__'')
                | Some n \<Rightarrow> Inl (Exn ToolError (''Function '' @ n @ '' is not decorated with @tool''))))
      | NotCallable ty \<Rightarrow> Inl (Exn ToolError (''Cannot register '' @ ty)))"

text \<open>
  \<open>register\<close>: the result (the stored Tool, or the error raised) and the registry
  afterwards. \<open>AList.update\<close> is the dictionary assignment: it replaces the value of a
  key in place and appends a new key at the end.
\<close>

definition ToolRegistry_register ::
  "'w registrable \<Rightarrow> 'w registry \<Rightarrow> (exn + 'w Tool) \<times> 'w registry" where
  "ToolRegistry_register tool_or_func tools =
     (case register_resolve tool_or_func of
        Inl e \<Rightarrow> (Inl e, tools)
      | Inr t \<Rightarrow>
          if name t \<in> set (map fst tools)
          then (Inl (Exn ToolError (''Tool '' @ apos @ name t @ apos @ '' already registered'')), tools)
          else (Inr t, AList.update (name t) t tools))"

definition ToolRegistry_get :: "'w registry \<Rightarrow> string \<Rightarrow> exn + 'w Tool" where
  "ToolRegistry_get tools n =
     (case map_of tools n of
        None \<Rightarrow> Inl (Exn ToolError (''Tool '' @ apos @ n @ apos @ '' not found. Available: ''
                        @ join '', '' (map fst tools)))
      | Some t \<Rightarrow> Inr t)"

definition get_all :: "'w registry \<Rightarrow> 'w Tool list" where
  "get_all tools = map snd tools"

definition get_by_source :: "'w registry \<Rightarrow> ToolSource \<Rightarrow> 'w Tool list" where
  "get_by_source tools s = filter (\<lambda>t. source t = s) (map snd tools)"

definition has :: "'w registry \<Rightarrow> string \<Rightarrow> bool" where
  "has tools n = (n \<in> set (map fst tools))"

text \<open>\<open>execute(name, **kwargs)\<close>: \<open>get\<close>, then \<open>Tool.execute\<close>.\<close>

definition ToolRegistry_execute ::
  "'w registry \<Rightarrow> string \<Rightarrow> pydict \<Rightarrow> 'w \<Rightarrow> (exn + pyval) \<times> 'w" where
  "ToolRegistry_execute tools n kwargs w =
     (case ToolRegistry_get tools n of
        Inl e \<Rightarrow> (Inl e, w)
      | Inr t \<Rightarrow> Tool_execute t kwargs w)"

section \<open>Schema synthesis and the @tool decorator (tools/decorator.py)\<close>

text \<open>
  \<open>_type_to_schema(hint)\<close>; \<open>None\<close> is the missing hint. Only the schema of a pydantic
  model can raise.
\<close>

fun type_to_schema :: "hint option \<Rightarrow> exn + pydict" where
  "type_to_schema None = Inr [(''type'', PyStr ''string'')]"
| "type_to_schema (Some (HAnnotated h anns)) = type_to_schema (Some h)"
| "type_to_schema (Some HNoneType) = Inr [(''type'', PyStr ''null'')]"
| "type_to_schema (Some HStr) = Inr [(''type'', PyStr ''string'')]"
| "type_to_schema (Some HInt) = Inr [(''type'', PyStr ''integer'')]"
| "type_to_schema (Some HFloat) = Inr [(''type'', PyStr ''number'')]"
| "type_to_schema (Some HBool) = Inr [(''type'', PyStr ''boolean'')]"
| "type_to_schema (Some (HList [])) =
     Inr [(''type'', PyStr ''array''), (''items'', PyDict [(''type'', PyStr ''string'')])]"
| "type_to_schema (Some (HList (a # as))) =
     (case type_to_schema (Some a) of
        Inl e \<Rightarrow> Inl e
      | Inr items_schema \<Rightarrow> Inr [(''type'', PyStr ''array''), (''items'', PyDict items_schema)])"
| "type_to_schema (Some HDict) = Inr [(''type'', PyStr ''object'')]"
| "type_to_schema (Some (HModel r)) = r"
| "type_to_schema (Some HOther) = Inr [(''type'', PyStr ''string'')]"

text \<open>One step of the loop over the metadata of an \<open>Annotated\<close> hint.\<close>

fun apply_annotation :: "pydict \<Rightarrow> annotation \<Rightarrow> pydict" where
  "apply_annotation prop_schema (AnnStr d) = AList.update ''description'' (PyStr d) prop_schema"
| "apply_annotation prop_schema (AnnField (Some d)) =
     (if d \<noteq> [] then AList.update ''description'' (PyStr d) prop_schema else prop_schema)"
| "apply_annotation prop_schema (AnnField None) = prop_schema"
| "apply_annotation prop_schema AnnOther = prop_schema"

text \<open>The parameters the loop skips: \<open>self\<close>, \<open>cls\<close> and the variadic ones.\<close>

definition skipped :: "param \<Rightarrow> bool" where
  "skipped p = (pname p \<in> {''self'', ''cls''} \<or> pkind p \<in> {VAR_POSITIONAL, VAR_KEYWORD})"

text \<open>
  The loop of \<open>_generate_schema\<close> over \<open>sig.parameters\<close>, with the dictionary
  \<open>properties\<close> and the list \<open>required\<close> it fills.
\<close>

fun schema_loop ::
  "(string \<times> hint) list \<Rightarrow> param list \<Rightarrow> pydict \<Rightarrow> string list \<Rightarrow> exn + (pydict \<times> string list)" where
  "schema_loop hints [] properties required = Inr (properties, required)"
| "schema_loop hints (p # ps) properties required =
     (if skipped p then schema_loop hints ps properties required
      else
        let hint = map_of hints (pname p) in
        case type_to_schema hint of
          Inl e \<Rightarrow> Inl e
        | Inr s0 \<Rightarrow>
            let s1 = (case hint of
                        Some (HAnnotated h anns) \<Rightarrow> foldl apply_annotation s0 anns
                      | _ \<Rightarrow> s0)
            in (case pdefault p of
                  Some d \<Rightarrow>
                    schema_loop hints ps
                      (AList.update (pname p) (PyDict (AList.update ''default'' d s1)) properties)
                      required
                | None \<Rightarrow>
                    schema_loop hints ps
                      (AList.update (pname p) (PyDict s1) properties)
                      (required @ [pname p])))"

text \<open>
  \<open>_generate_schema(func)\<close>. \<open>inspect.signature\<close> is called outside any handler; a
  failure of \<open>get_type_hints\<close> that \<open>except Exception\<close> catches leaves no hints.
\<close>

definition generate_schema :: "'w pyfunc \<Rightarrow> exn + pydict" where
  "generate_schema func =
     (case fn_signature func of
        Inl e \<Rightarrow> Inl e
      | Inr sig \<Rightarrow>
          (case (case fn_hints func of
                   Inr h \<Rightarrow> Inr h
                 | Inl e \<Rightarrow> if is_Exception e then Inr [] else Inl e) of
             Inl e \<Rightarrow> Inl e
           | Inr hints \<Rightarrow>
               (case schema_loop hints sig [] [] of
                  Inl e \<Rightarrow> Inl e
                | Inr (properties, required) \<Rightarrow>
                    Inr ([(''type'', PyStr ''object''), (''properties'', PyDict properties)]
                         @ (if required \<noteq> [] then [(''required'', PyList (map PyStr required))]
                            else [])))))"

text \<open>
  The decorator \<open>tool(func, name=..., description=...)\<close>: the wrapper returned has the
  name, docstring, signature and behaviour of \<open>fn\<close> (\<open>functools.wraps\<close>) and carries
  the Tool.
\<close>

definition tool_decorator ::
  "string option \<Rightarrow> string option \<Rightarrow> 'w pyfunc \<Rightarrow> exn + 'w pyfunc" where
  "tool_decorator name_arg description_arg fn =
     (case (case name_arg of
              Some n \<Rightarrow> if n \<noteq> [] then Inr n
                        else (case fn_name fn of
                                Some m \<Rightarrow> Inr m
                              | None \<Rightarrow> Inl (Exn AttributeError ''object has no attribute __name__''))
            | None \<Rightarrow> (case fn_name fn of
                         Some m \<Rightarrow> Inr m
                       | None \<Rightarrow> Inl (Exn AttributeError ''object has no attribute __name__''))) of
        Inl e \<Rightarrow> Inl e
      | Inr tool_name \<Rightarrow>
          let doc = strip (case fn_doc fn of Some d \<Rightarrow> d | None \<Rightarrow> []);
              tool_description =
                (case description_arg of
                   Some d \<Rightarrow> if d \<noteq> [] then d
                             else if doc \<noteq> [] then doc else ''Tool: '' @ tool_name
                 | None \<Rightarrow> if doc \<noteq> [] then doc else ''Tool: '' @ tool_name)
          in (case generate_schema fn of
                Inl e \<Rightarrow> Inl e
              | Inr params \<Rightarrow>
                  Inr (fn\<lparr>fn_tool := Some (set_executor
                         \<lparr>name = tool_name, description = tool_description,
                          parameters = params, source = NATIVE, executor = None\<rparr>
                         (fn_call fn))\<rparr>)))"

text \<open>
  \<open>_normalize_callable\<close> (tools/universal.py), the other way a plain callable becomes a
  Tool: here a failure of \<open>_generate_schema\<close> is caught and replaced by the empty object
  schema. The executor bound is the callable itself or its thread wrapper, which behave
  alike.
\<close>

definition normalize_callable ::
  "'w pyfunc \<Rightarrow> string option \<Rightarrow> string option \<Rightarrow> exn + 'w Tool" where
  "normalize_callable func name_arg description_arg =
     (let tool_name = (case name_arg of
                         Some n \<Rightarrow> if n \<noteq> [] then Some n else fn_name func
                       | None \<Rightarrow> fn_name func)
      in case tool_name of
           None \<Rightarrow> Inl (Exn ValueError ''Lambda requires name= argument'')
         | Some tn \<Rightarrow>
             if tn = [] \<or> tn = ''<lambda>'' then Inl (Exn ValueError ''Lambda requires name= argument'')
             else
               let doc = strip (case fn_doc func of Some d \<Rightarrow> d | None \<Rightarrow> []);
                   tool_description =
                     (case description_arg of
                        Some d \<Rightarrow> if d \<noteq> [] then d
                                  else if doc \<noteq> [] then doc else ''Tool: '' @ tn
                      | None \<Rightarrow> if doc \<noteq> [] then doc else ''Tool: '' @ tn)
               in (case (case generate_schema func of
                           Inr params \<Rightarrow> Inr params
                         | Inl e \<Rightarrow> if is_Exception e
                                    then Inr [(''type'', PyStr ''object''), (''properties'', PyDict [])]
                                    else Inl e) of
                     Inl e \<Rightarrow> Inl e
                   | Inr params \<Rightarrow>
                       Inr (set_executor
                             \<lparr>name = tn, description = tool_description,
                              parameters = params, source = NATIVE, executor = None\<rparr>
                             (fn_call func))))"

text \<open>
  How a schema is read back (\<open>Tool.get_signature\<close>, core/types.py):
  \<open>parameters.get("properties", {})\<close> and \<open>set(parameters.get("required", []))\<close>, on the
  dictionaries and lists that schema synthesis produces.
\<close>

definition schema_properties :: "pydict \<Rightarrow> pydict" where
  "schema_properties params = (case map_of params ''properties'' of Some (PyDict d) \<Rightarrow> d | _ \<Rightarrow> [])"

definition schema_required :: "pydict \<Rightarrow> pyval set" where
  "schema_required params = (case map_of params ''required'' of Some (PyList xs) \<Rightarrow> set xs | _ \<Rightarrow> {})"

text \<open>The value returned, when there is one.\<close>

definition projr_opt :: "'e + 'a \<Rightarrow> 'a option" where
  "projr_opt r = (case r of Inl e \<Rightarrow> None | Inr v \<Rightarrow> Some v)"

section \<open>ExecutionResult (core/types.py) and the restricted sandbox (sandbox/restricted.py)\<close>

record ExecutionResult =
  success :: bool
  stdout :: string
  stderr :: string
  return_value :: pyval
  error :: "string option"
  execution_time_ms :: real

text \<open>
  The state of the process that the sandbox touches: the stream objects bound to
  \<open>sys.stdout\<close> and \<open>sys.stderr\<close> (by reference), the text held by each in-memory
  stream, the next free reference, and everything else (\<open>globals\<close>).
\<close>

record 'g world =
  sys_stdout :: nat
  sys_stderr :: nat
  buffers :: "nat \<Rightarrow> string"
  next_obj :: nat
  globals :: 'g

text \<open>\<open>StringIO()\<close> allocates a new, empty in-memory stream; \<open>getvalue()\<close> reads one.\<close>

definition new_StringIO :: "'g world \<Rightarrow> nat \<times> 'g world" where
  "new_StringIO w =
     (next_obj w, w\<lparr>buffers := (buffers w)(next_obj w := []), next_obj := Suc (next_obj w)\<rparr>)"

definition getvalue :: "'g world \<Rightarrow> nat \<Rightarrow> string" where
  "getvalue w r = buffers w r"

text \<open>
  The execution namespace: a name is bound to a built-in, to a module, or to the wrapper
  of a tool, which forwards its keyword arguments to \<open>Tool.execute\<close>.
\<close>

datatype 'w binding = Builtin string | Module string | ToolWrapper "'w executor"

type_synonym 'w namespace = "(string \<times> 'w binding) list"

definition make_tool_wrapper :: "'w Tool \<Rightarrow> 'w binding" where
  "make_tool_wrapper t = ToolWrapper (\<lambda>kwargs w. Tool_execute t kwargs w)"

definition safe_builtins :: "string list" where
  "safe_builtins =
     [''print'', ''len'', ''range'', ''enumerate'', ''zip'', ''map'', ''filter'', ''sorted'',
      ''reversed'', ''list'', ''dict'', ''set'', ''tuple'', ''str'', ''int'', ''float'', ''bool'',
      ''sum'', ''min'', ''max'', ''abs'', ''round'', ''any'', ''all'', ''isinstance'', ''hasattr'',
      ''getattr'', ''setattr'']"

definition build_namespace :: "'w Tool list \<Rightarrow> 'w namespace" where
  "build_namespace tools =
     foldl (\<lambda>namespace t. AList.update (name t) (make_tool_wrapper t) namespace)
       (map (\<lambda>n. (n, Builtin n)) safe_builtins
        @ [(''json'', Module ''json''), (''asyncio'', Module ''asyncio'')])
       tools"

text \<open>\<open>s.split(c)\<close> for a single character \<open>c\<close>.\<close>

fun split_on :: "char \<Rightarrow> string \<Rightarrow> string list" where
  "split_on c [] = [[]]"
| "split_on c (x # xs) =
     (if x = c then [] # split_on c xs
      else (case split_on c xs of
              [] \<Rightarrow> [[x]]
            | l # ls \<Rightarrow> (x # l) # ls))"

text \<open>\<open>_indent(code, spaces)\<close>.\<close>

definition indent :: "string \<Rightarrow> nat \<Rightarrow> string" where
  "indent code spaces =
     (let prefix = replicate spaces (CHR '' '');
          lines = split_on (CHR 0x0A) code
      in join nl (map (\<lambda>line. if strip line \<noteq> [] then prefix @ line else line) lines))"

text \<open>The text \<open>wrapped_code\<close> that \<open>_execute_code\<close> compiles.\<close>

definition wrap_code :: "string \<Rightarrow> string" where
  "wrap_code code =
     (let indented = indent (rstrip code) 4;
          indented = (if strip indented = [] then ''    pass'' else indented)
      in ''async def __polytool_main__():'' @ nl @ indented @ nl @ ''    pass'' @ nl)"

text \<open>
  What the program takes from Python and cannot be written here: \<open>ast.parse\<close> (the
  exception it raises, if any); compiling and executing the wrapped text in the namespace
  and awaiting its entry point under \<open>asyncio.wait_for\<close>, where an expired deadline is the
  raise of \<open>TimeoutError\<close>; the two readings of \<open>time.time()\<close>; and the text of a
  timeout inside an f-string.
\<close>

record 'g pyrt =
  ast_parse :: "string \<Rightarrow> exn option"
  exec_await :: "string \<Rightarrow> 'g world namespace \<Rightarrow> real \<Rightarrow> 'g world \<Rightarrow> (exn + pyval) \<times> 'g world"
  time_start :: real
  time_end :: real
  str_timeout :: "real \<Rightarrow> string"

text \<open>\<open>_execute_code(code, namespace)\<close>, awaited under the deadline.\<close>

definition execute_code ::
  "'g pyrt \<Rightarrow> string \<Rightarrow> 'g world namespace \<Rightarrow> real \<Rightarrow> 'g world \<Rightarrow> (exn + pyval) \<times> 'g world" where
  "execute_code rt code namespace timeout w = exec_await rt (wrap_code code) namespace timeout w"

text \<open>\<open>timeout or fallback\<close>, for a timeout that is a number or \<open>None\<close>.\<close>

definition timeout_or :: "real option \<Rightarrow> real \<Rightarrow> real" where
  "timeout_or timeout fallback =
     (case timeout of None \<Rightarrow> fallback | Some t \<Rightarrow> if t = 0 then fallback else t)"

text \<open>
  \<open>RestrictedSandbox.execute(code, tools, timeout)\<close> on a sandbox whose \<open>self.timeout\<close>
  is \<open>self_timeout\<close>: the result returned or the exception that leaves the method, and
  the world afterwards. The last line is the \<open>finally\<close> block.
\<close>

definition RestrictedSandbox_execute ::
  "'g pyrt \<Rightarrow> real \<Rightarrow> string \<Rightarrow> 'g world Tool list option \<Rightarrow> real option \<Rightarrow> 'g world
     \<Rightarrow> (exn + ExecutionResult) \<times> 'g world" where
  "RestrictedSandbox_execute rt self_timeout code tools timeout w =
     (let timeout = timeout_or timeout self_timeout;
          elapsed = (time_end rt - time_start rt) * 1000
      in case ast_parse rt code of
           Some e \<Rightarrow>
             if is_SyntaxError e
             then (Inr \<lparr>success = False, stdout = [], stderr = [], return_value = PyNone,
                        error = Some (''Syntax error: '' @ exn_str e),
                        execution_time_ms = elapsed\<rparr>, w)
             else (Inl e, w)
         | None \<Rightarrow>
             let namespace = build_namespace (case tools of None \<Rightarrow> [] | Some ts \<Rightarrow> ts);
                 (stdout_capture, w1) = new_StringIO w;
                 (stderr_capture, w2) = new_StringIO w1;
                 old_stdout = sys_stdout w2;
                 old_stderr = sys_stderr w2;
                 w3 = w2\<lparr>sys_stdout := stdout_capture, sys_stderr := stderr_capture\<rparr>;
                 (r, w4) = execute_code rt code namespace timeout w3;
                 outcome =
                   (case r of
                      Inr result \<Rightarrow>
                        Inr \<lparr>success = True, stdout = getvalue w4 stdout_capture,
                             stderr = getvalue w4 stderr_capture, return_value = result,
                             error = None, execution_time_ms = elapsed\<rparr>
                    | Inl e \<Rightarrow>
                        if is_TimeoutError e
                        then Inr \<lparr>success = False, stdout = getvalue w4 stdout_capture,
                                  stderr = getvalue w4 stderr_capture, return_value = PyNone,
                                  error = Some (''Execution timed out after '' @ str_timeout rt timeout @ ''s''),
                                  execution_time_ms = elapsed\<rparr>
                        else if is_Exception e
                        then Inr \<lparr>success = False, stdout = getvalue w4 stdout_capture,
                                  stderr = getvalue w4 stderr_capture, return_value = PyNone,
                                  error = Some (class_name (exn_class e) @ '': '' @ exn_str e),
                                  execution_time_ms = elapsed\<rparr>
                        else Inl e)
             in (outcome, w4\<lparr>sys_stdout := old_stdout, sys_stderr := old_stderr\<rparr>))"

section \<open>The Sandbox protocol and get_sandbox (sandbox/base.py)\<close>





section \<open>The execute_code tool (codegen/executor.py)\<close>


section \<open>Messages, usage and the LiteLLM provider (core/types.py, providers/litellm.py)\<close>

text \<open>
  \<open>Usage\<close>. Its fields \<open>tool_calls\<close> and \<open>execution_time_ms\<close> carry the prefix
  \<open>usage_\<close> here, since \<open>Message\<close> and \<open>ExecutionResult\<close> have fields of these names.
\<close>

record Usage =
  input_tokens :: int
  output_tokens :: int
  total_tokens :: int
  usage_tool_calls :: int
  ptc_executions :: int
  estimated_cost_usd :: real
  usage_execution_time_ms :: real
  estimated_direct_tokens :: "int option"

definition Usage_default :: Usage where
  "Usage_default = \<lparr>input_tokens = 0, output_tokens = 0, total_tokens = 0, usage_tool_calls = 0,
     ptc_executions = 0, estimated_cost_usd = 0, usage_execution_time_ms = 0,
     estimated_direct_tokens = None\<rparr>"

text \<open>
  A requested tool call, the dictionary
  \<open>{"id": ..., "type": "function", "function": {"name": ..., "arguments": ...}}\<close>.
\<close>

record ToolCall =
  tc_id :: string
  tc_type :: string
  tc_name :: string
  tc_arguments :: string

text \<open>\<open>Message\<close>; its field \<open>name\<close> is \<open>msg_name\<close> here.\<close>

record Message =
  role :: string
  content :: "string option"
  tool_calls :: "ToolCall list option"
  tool_call_id :: "string option"
  msg_name :: "string option"

text \<open>What the completion backend (\<open>litellm.acompletion\<close>) answers.\<close>

record raw_tool_call =
  raw_id :: string
  raw_name :: string
  raw_arguments :: string

record raw_message =
  raw_content :: "string option"
  raw_tool_calls :: "raw_tool_call list option"

record raw_usage =
  prompt_tokens :: int
  completion_tokens :: int
  raw_total_tokens :: int

record raw_response =
  choices :: "raw_message list"
  response_usage :: "raw_usage option"

text \<open>
  The backend is called with the messages and the tools in wire form; it answers or
  raises, and may change the world.
\<close>

type_synonym 'w backend = "pyval list \<Rightarrow> pyval list option \<Rightarrow> 'w \<Rightarrow> (exn + raw_response) \<times> 'w"

definition tool_call_to_dict :: "ToolCall \<Rightarrow> pyval" where
  "tool_call_to_dict tc =
     PyDict [(''id'', PyStr (tc_id tc)), (''type'', PyStr (tc_type tc)),
             (''function'', PyDict [(''name'', PyStr (tc_name tc)),
                                    (''arguments'', PyStr (tc_arguments tc))])]"

text \<open>\<open>_message_to_dict\<close>: absent and empty fields are left out.\<close>

definition message_to_dict :: "Message \<Rightarrow> pyval" where
  "message_to_dict m =
     PyDict ([(''role'', PyStr (role m))]
       @ (case content m of None \<Rightarrow> [] | Some c \<Rightarrow> [(''content'', PyStr c)])
       @ (case tool_calls m of
            None \<Rightarrow> []
          | Some tcs \<Rightarrow> if tcs = [] then [] else [(''tool_calls'', PyList (map tool_call_to_dict tcs))])
       @ (case tool_call_id m of
            None \<Rightarrow> []
          | Some i \<Rightarrow> if i = [] then [] else [(''tool_call_id'', PyStr i)])
       @ (case msg_name m of
            None \<Rightarrow> []
          | Some n \<Rightarrow> if n = [] then [] else [(''name'', PyStr n)]))"

text \<open>\<open>Tool.to_openai_schema\<close>.\<close>

definition to_openai_schema :: "'w Tool \<Rightarrow> pyval" where
  "to_openai_schema t =
     PyDict [(''type'', PyStr ''function''),
             (''function'', PyDict [(''name'', PyStr (name t)),
                                    (''description'', PyStr (description t)),
                                    (''parameters'', PyDict (parameters t))])]"

text \<open>\<open>_response_to_message\<close>: the message always has the role \<open>assistant\<close>.\<close>

definition response_to_message :: "raw_message \<Rightarrow> Message" where
  "response_to_message response_message =
     \<lparr>role = ''assistant'',
      content = raw_content response_message,
      tool_calls =
        (case raw_tool_calls response_message of
           None \<Rightarrow> None
         | Some tcs \<Rightarrow>
             if tcs = [] then None
             else Some (map (\<lambda>tc. \<lparr>tc_id = raw_id tc, tc_type = ''function'',
                                     tc_name = raw_name tc, tc_arguments = raw_arguments tc\<rparr>) tcs)),
      tool_call_id = None,
      msg_name = None\<rparr>"

text \<open>
  \<open>LiteLLMProvider.generate(messages, tools)\<close>: every \<open>Exception\<close> raised inside,
  also by \<open>response.choices[0]\<close> on an empty list, becomes a \<open>ProviderError\<close>.
\<close>

definition generate ::
  "'w backend \<Rightarrow> Message list \<Rightarrow> 'w Tool list \<Rightarrow> 'w \<Rightarrow> (exn + Message \<times> Usage) \<times> 'w" where
  "generate acompletion msgs tools w =
     (let litellm_messages = map message_to_dict msgs;
          litellm_tools = (if tools = [] then None else Some (map to_openai_schema tools))
      in case acompletion litellm_messages litellm_tools w of
           (Inl e, w') \<Rightarrow>
             (Inl (if is_Exception e then Exn ProviderError (''LiteLLM error: '' @ exn_str e) else e), w')
         | (Inr response, w') \<Rightarrow>
             (case choices response of
                [] \<Rightarrow> (Inl (Exn ProviderError ''LiteLLM error: list index out of range''), w')
              | choice # rest \<Rightarrow>
                  (Inr (response_to_message choice,
                        (case response_usage response of
                           None \<Rightarrow> Usage_default
                         | Some u \<Rightarrow> Usage_default\<lparr>input_tokens := prompt_tokens u,
                                        output_tokens := completion_tokens u,
                                        total_tokens := raw_total_tokens u\<rparr>)), w')))"

section \<open>The agent loop (agent/agent.py)\<close>

text \<open>
  What the loop takes from Python and from the rest of the program: \<open>json.loads\<close>,
  \<open>str\<close> on a tool result that is not a string, and \<open>Tool.get_signature\<close>, whose
  text is built with \<open>repr\<close> and is used in the system prompt only.
\<close>

record 'w pyenv =
  json_loads :: "string \<Rightarrow> exn + pyval"
  py_str :: "pyval \<Rightarrow> string"
  get_signature :: "'w Tool \<Rightarrow> exn + string"

text \<open>The double quote, for the docstring marks of the system prompt.\<close>

definition dquote :: string where
  "dquote = [CHR 0x22]"

text \<open>The loop of \<open>build_system_prompt\<close> over the tools, appending to \<open>parts\<close>.\<close>

fun prompt_parts :: "'w pyenv \<Rightarrow> 'w Tool list \<Rightarrow> string list \<Rightarrow> exn + string list" where
  "prompt_parts env [] parts = Inr parts"
| "prompt_parts env (t # ts) parts =
     (if name t = ''execute_code'' then prompt_parts env ts parts
      else case get_signature env t of
             Inl e \<Rightarrow> Inl e
           | Inr sig \<Rightarrow>
               let desc = hd (split_on (CHR 0x0A) (description t))
               in prompt_parts env ts
                    (parts @ [sig @ nl @ ''    '' @ dquote @ dquote @ dquote @ desc
                                @ dquote @ dquote @ dquote, []]))"

definition build_system_prompt :: "'w pyenv \<Rightarrow> 'w Tool list \<Rightarrow> string option \<Rightarrow> exn + string" where
  "build_system_prompt env tools base_prompt =
     (let parts = [case base_prompt of
                     None \<Rightarrow> ''You are a helpful assistant with access to tools.''
                   | Some b \<Rightarrow> if b = [] then ''You are a helpful assistant with access to tools.''
                               else b];
          parts = parts @ [nl @ ''## Tool Usage'' @ nl @ nl
                    @ ''For simple tasks (1-2 tool calls), call tools directly.'' @ nl
                    @ ''For complex tasks requiring multiple tools or data processing, use execute_code.''
                    @ nl];
          parts = parts @ [''## Available Tools'' @ nl @ ''```python'']
      in case prompt_parts env tools parts of
           Inl e \<Rightarrow> Inl e
         | Inr parts \<Rightarrow> Inr (join nl (parts @ [''```''])))"

text \<open>\<open>AgentResult\<close>; its field \<open>output\<close> is \<open>output_text\<close> here.\<close>

record AgentResult =
  output_text :: string
  usage :: Usage
  messages :: "Message list"
  tool_calls_made :: int
  ptc_used :: bool

text \<open>
  The Agent: the fields that \<open>run\<close> reads, the provider being given by its completion
  backend, and the model name and the two switches that \<open>__init__\<close> stores.
\<close>

record 'w Agent =
  model :: string
  system_prompt :: "string option"
  enable_ptc :: bool
  agent_sandbox_type :: "string option"
  max_iterations :: int
  provider :: "'w backend"
  registry :: "'w registry"

text \<open>The local variables of \<open>run\<close> that the loop updates.\<close>

record run_state =
  conversation :: "Message list"
  total_usage :: Usage
  st_tool_calls_made :: int
  st_ptc_used :: bool

definition type_name :: "pyval \<Rightarrow> string" where
  "type_name v =
     (case v of PyNone \<Rightarrow> ''NoneType'' | PyBool b \<Rightarrow> ''bool'' | PyInt i \<Rightarrow> ''int''
      | PyFloat x \<Rightarrow> ''float'' | PyStr s \<Rightarrow> ''str'' | PyList xs \<Rightarrow> ''list''
      | PyDict d \<Rightarrow> ''dict'' | PyObj l \<Rightarrow> l)"

text \<open>
  The call \<open>self.registry.execute(func_name, **func_args)\<close>: the decoded arguments must
  be a mapping, and none of its keys may name a parameter that is already bound
  (\<open>self\<close>, \<open>name\<close>); both failures are \<open>TypeError\<close>s raised by the call itself.
\<close>

definition call_registry_execute ::
  "'w registry \<Rightarrow> string \<Rightarrow> pyval \<Rightarrow> 'w \<Rightarrow> (exn + pyval) \<times> 'w" where
  "call_registry_execute tools func_name func_args w =
     (case func_args of
        PyDict kwargs \<Rightarrow>
          (case find (\<lambda>k. k = ''self'' \<or> k = ''name'') (map fst kwargs) of
             Some k \<Rightarrow>
               (Inl (Exn TypeError (''ToolRegistry.execute() got multiple values for argument ''
                                     @ apos @ k @ apos)), w)
           | None \<Rightarrow> ToolRegistry_execute tools func_name kwargs w)
      | v \<Rightarrow>
          (Inl (Exn TypeError
                 (''polytool.tools.registry.ToolRegistry.execute() argument after ** must be a mapping, not ''
                  @ type_name v)), w))"

text \<open>
  The body of the inner loop for one tool call. \<open>json.loads\<close> runs before the
  \<open>try\<close>; inside it, \<open>except Exception\<close> turns an error into the text of the tool
  message.
\<close>

definition dispatch_tool_call ::
  "'w pyenv \<Rightarrow> 'w registry \<Rightarrow> ToolCall \<Rightarrow> run_state \<Rightarrow> 'w \<Rightarrow> (exn + run_state) \<times> 'w" where
  "dispatch_tool_call env tools tool_call st w =
     (let made = st_tool_calls_made st + 1;
          func_name = tc_name tool_call
      in case json_loads env (tc_arguments tool_call) of
           Inl e \<Rightarrow> (Inl e, w)
         | Inr func_args \<Rightarrow>
             let call_id = tc_id tool_call;
                 ptc = (if func_name = ''execute_code'' then True else st_ptc_used st);
                 u = (if func_name = ''execute_code''
                      then (total_usage st)\<lparr>ptc_executions := ptc_executions (total_usage st) + 1\<rparr>
                      else (total_usage st)\<lparr>usage_tool_calls := usage_tool_calls (total_usage st) + 1\<rparr>)
             in case call_registry_execute tools func_name func_args w of
                  (Inr result, w') \<Rightarrow>
                    (Inr \<lparr>conversation = conversation st @
                            [\<lparr>role = ''tool'',
                              content = Some (case result of PyStr s \<Rightarrow> s | v \<Rightarrow> py_str env v),
                              tool_calls = None, tool_call_id = Some call_id,
                              msg_name = Some func_name\<rparr>],
                          total_usage = u, st_tool_calls_made = made, st_ptc_used = ptc\<rparr>, w')
                | (Inl e, w') \<Rightarrow>
                    if is_Exception e
                    then (Inr \<lparr>conversation = conversation st @
                                 [\<lparr>role = ''tool'', content = Some (''Error: '' @ exn_str e),
                                   tool_calls = None, tool_call_id = Some call_id,
                                   msg_name = Some func_name\<rparr>],
                               total_usage = u, st_tool_calls_made = made, st_ptc_used = ptc\<rparr>, w')
                    else (Inl e, w'))"

text \<open>The inner loop: the requested calls in order, one after the other.\<close>

fun dispatch_tool_calls ::
  "'w pyenv \<Rightarrow> 'w registry \<Rightarrow> ToolCall list \<Rightarrow> run_state \<Rightarrow> 'w \<Rightarrow> (exn + run_state) \<times> 'w" where
  "dispatch_tool_calls env tools [] st w = (Inr st, w)"
| "dispatch_tool_calls env tools (tool_call # rest) st w =
     (case dispatch_tool_call env tools tool_call st w of
        (Inl e, w') \<Rightarrow> (Inl e, w')
      | (Inr st', w') \<Rightarrow> dispatch_tool_calls env tools rest st' w')"

text \<open>
  The outer loop \<open>for _ in range(self.max_iterations)\<close> with the iterations that
  remain, and the return after it.
\<close>

fun run_loop ::
  "'w pyenv \<Rightarrow> 'w Agent \<Rightarrow> nat \<Rightarrow> run_state \<Rightarrow> 'w \<Rightarrow> (exn + AgentResult) \<times> 'w" where
  "run_loop env agent 0 st w =
     (Inr \<lparr>output_text = ''[Max iterations reached]'', usage = total_usage st,
           messages = conversation st, tool_calls_made = st_tool_calls_made st,
           ptc_used = st_ptc_used st\<rparr>, w)"
| "run_loop env agent (Suc n) st w =
     (case generate (provider agent) (conversation st) (get_all (registry agent)) w of
        (Inl e, w1) \<Rightarrow> (Inl e, w1)
      | (Inr (response, u), w1) \<Rightarrow>
          let st1 = st\<lparr>total_usage := (total_usage st)
                          \<lparr>input_tokens := input_tokens (total_usage st) + input_tokens u,
                           output_tokens := output_tokens (total_usage st) + output_tokens u,
                           total_tokens := total_tokens (total_usage st) + total_tokens u\<rparr>,
                       conversation := conversation st @ [response]\<rparr>
          in if tool_calls response = None \<or> tool_calls response = Some []
             then (Inr \<lparr>output_text = (case content response of None \<Rightarrow> [] | Some c \<Rightarrow> c),
                        usage = total_usage st1, messages = conversation st1,
                        tool_calls_made = st_tool_calls_made st1, ptc_used = st_ptc_used st1\<rparr>, w1)
             else (case dispatch_tool_calls env (registry agent) (the (tool_calls response)) st1 w1 of
                     (Inl e, w2) \<Rightarrow> (Inl e, w2)
                   | (Inr st2, w2) \<Rightarrow> run_loop env agent n st2 w2))"

text \<open>
  The conversation that \<open>run\<close> starts from: the caller's messages, a system message in
  front unless they begin with one, and the user's prompt at the end.
\<close>

definition seed_conversation ::
  "'w pyenv \<Rightarrow> 'w Agent \<Rightarrow> string \<Rightarrow> Message list option \<Rightarrow> exn + Message list" where
  "seed_conversation env agent prompt msgs =
     (let conv = (case msgs of None \<Rightarrow> [] | Some ms \<Rightarrow> ms);
          user = \<lparr>role = ''user'', content = Some prompt, tool_calls = None,
                  tool_call_id = None, msg_name = None\<rparr>
      in if conv = [] \<or> role (hd conv) \<noteq> ''system''
         then (case build_system_prompt env (get_all (registry agent)) (system_prompt agent) of
                 Inl e \<Rightarrow> Inl e
               | Inr full_system \<Rightarrow>
                   Inr (\<lparr>role = ''system'', content = Some full_system, tool_calls = None,
                         tool_call_id = None, msg_name = None\<rparr> # conv @ [user]))
         else Inr (conv @ [user]))"

text \<open>\<open>Agent.run(prompt, messages=...)\<close>; \<open>range\<close> of a negative number is empty.\<close>

definition Agent_run ::
  "'w pyenv \<Rightarrow> 'w Agent \<Rightarrow> string \<Rightarrow> Message list option \<Rightarrow> 'w \<Rightarrow> (exn + AgentResult) \<times> 'w" where
  "Agent_run env agent prompt msgs w =
     (case seed_conversation env agent prompt msgs of
        Inl e \<Rightarrow> (Inl e, w)
      | Inr conv \<Rightarrow>
          run_loop env agent (nat (max_iterations agent))
            \<lparr>conversation = conv, total_usage = Usage_default, st_tool_calls_made = 0,
             st_ptc_used = False\<rparr> w)"

section \<open>The bounded run as the specification describes it\<close>

text \<open>
  The specification's account of the loop (section 4.5), written on its own as the record
  of a run in which every iteration dispatches tool calls, to compare with \<open>run_loop\<close>.
  A turn is one iteration: the model's message, the usage reported with it, and the
  tool-role answers, one per requested call.
\<close>

record turn =
  turn_response :: Message
  turn_usage :: Usage
  turn_answers :: "Message list"

text \<open>
  The tool-role response to a call: the result as text, or \<open>Error: <message>\<close>, tagged
  with the originating call identifier and the tool name.
\<close>

definition spec_tool_message :: "'w pyenv \<Rightarrow> ToolCall \<Rightarrow> exn + pyval \<Rightarrow> Message" where
  "spec_tool_message env tc r =
     \<lparr>role = ''tool'',
      content = Some (case r of
                        Inl e \<Rightarrow> ''Error: '' @ exn_str e
                      | Inr v \<Rightarrow> (case v of PyStr s \<Rightarrow> s | _ \<Rightarrow> py_str env v)),
      tool_calls = None,
      tool_call_id = Some (tc_id tc),
      msg_name = Some (tc_name tc)\<rparr>"

text \<open>
  The answers to the calls of one model message, in the order returned, each executed
  through the registry in the world the previous one left. There is no such record when
  the arguments of a call do not decode or a call raises outside \<open>Exception\<close>.
\<close>

fun spec_answers ::
  "'w pyenv \<Rightarrow> 'w registry \<Rightarrow> ToolCall list \<Rightarrow> 'w \<Rightarrow> (Message list \<times> 'w) option" where
  "spec_answers env tools [] w = Some ([], w)"
| "spec_answers env tools (tc # tcs) w =
     (case json_loads env (tc_arguments tc) of
        Inl e \<Rightarrow> None
      | Inr args \<Rightarrow>
          (case call_registry_execute tools (tc_name tc) args w of
             (r, w1) \<Rightarrow>
               if (case r of Inl e \<Rightarrow> \<not> is_Exception e | Inr v \<Rightarrow> False) then None
               else (case spec_answers env tools tcs w1 of
                       None \<Rightarrow> None
                     | Some (ms, w2) \<Rightarrow> Some (spec_tool_message env tc r # ms, w2))))"

text \<open>
  The turns of a run of \<open>n\<close> iterations from a conversation: each requests a model
  decision over the conversation so far and the registry's tools, and the model requests
  at least one tool call every time. There is no such record when the backend fails, the
  model stops requesting tools, or a call has no answer.
\<close>

fun spec_turns ::
  "'w pyenv \<Rightarrow> 'w Agent \<Rightarrow> nat \<Rightarrow> Message list \<Rightarrow> 'w \<Rightarrow> (turn list \<times> 'w) option" where
  "spec_turns env agent 0 conv w = Some ([], w)"
| "spec_turns env agent (Suc n) conv w =
     (case generate (provider agent) conv (get_all (registry agent)) w of
        (Inl e, w1) \<Rightarrow> None
      | (Inr (response, u), w1) \<Rightarrow>
          (case tool_calls response of
             None \<Rightarrow> None
           | Some tcs \<Rightarrow>
               if tcs = [] then None
               else (case spec_answers env (registry agent) tcs w1 of
                       None \<Rightarrow> None
                     | Some (ms, w2) \<Rightarrow>
                         (case spec_turns env agent n (conv @ response # ms) w2 of
                            None \<Rightarrow> None
                          | Some (ts, w') \<Rightarrow>
                              Some (\<lparr>turn_response = response, turn_usage = u,
                                     turn_answers = ms\<rparr> # ts, w')))))"

text \<open>The calls a turn requested, and the calls and the messages of all turns in order.\<close>

definition turn_calls :: "turn \<Rightarrow> ToolCall list" where
  "turn_calls t = (case tool_calls (turn_response t) of None \<Rightarrow> [] | Some tcs \<Rightarrow> tcs)"

definition all_calls :: "turn list \<Rightarrow> ToolCall list" where
  "all_calls ts = concat (map turn_calls ts)"

definition history :: "turn list \<Rightarrow> Message list" where
  "history ts = concat (map (\<lambda>t. turn_response t # turn_answers t) ts)"

text \<open>A call is a code execution when its tool name is \<open>execute_code\<close>.\<close>

definition is_ptc :: "ToolCall \<Rightarrow> bool" where
  "is_ptc tc = (tc_name tc = ''execute_code'')"

section \<open>Concrete inputs\<close>

text \<open>Two tools of the same name.\<close>

definition search_tool :: "unit Tool" where
  "search_tool = \<lparr>name = ''search'', description = ''Search the web'', parameters = [],
     source = NATIVE, executor = Some (\<lambda>kwargs w. (Inr (PyStr ''found''), w))\<rparr>"

definition search_tool2 :: "unit Tool" where
  "search_tool2 = \<lparr>name = ''search'', description = ''Another search'', parameters = [],
     source = MCP, executor = None\<rparr>"

text \<open>
  \<open>def greet(name: str, times: int = 2, *args, **kwargs)\<close>, \<open>def f(cls)\<close>, and the
  built-in \<open>dict\<close>, for which \<open>inspect.signature\<close> raises \<open>ValueError\<close>.
\<close>

definition greet_fn :: "unit pyfunc" where
  "greet_fn = \<lparr>fn_name = Some ''greet'', fn_doc = Some ''Greet somebody.'',
     fn_signature = Inr
       [\<lparr>pname = ''name'', pkind = POSITIONAL_OR_KEYWORD, pdefault = None\<rparr>,
        \<lparr>pname = ''times'', pkind = POSITIONAL_OR_KEYWORD, pdefault = Some (PyInt 2)\<rparr>,
        \<lparr>pname = ''args'', pkind = VAR_POSITIONAL, pdefault = None\<rparr>,
        \<lparr>pname = ''kwargs'', pkind = VAR_KEYWORD, pdefault = None\<rparr>],
     fn_hints = Inr [(''name'', HStr), (''times'', HInt)],
     fn_call = (\<lambda>kwargs w. (Inr (PyStr ''hello''), w)),
     fn_tool = None\<rparr>"

definition cls_fn :: "unit pyfunc" where
  "cls_fn = \<lparr>fn_name = Some ''f'', fn_doc = None,
     fn_signature = Inr [\<lparr>pname = ''cls'', pkind = POSITIONAL_OR_KEYWORD, pdefault = None\<rparr>],
     fn_hints = Inr [],
     fn_call = (\<lambda>kwargs w. (Inr PyNone, w)),
     fn_tool = None\<rparr>"

definition dict_builtin :: "unit pyfunc" where
  "dict_builtin = \<lparr>fn_name = Some ''dict'', fn_doc = Some ''dict() -> new empty dictionary'',
     fn_signature = Inl (Exn ValueError
       (''no signature found for builtin type <class '' @ apos @ ''dict'' @ apos @ ''>'')),
     fn_hints = Inr [],
     fn_call = (\<lambda>kwargs w. (Inr (PyDict kwargs), w)),
     fn_tool = None\<rparr>"

text \<open>
  The text of the entry point around an indented body, and a runtime that agrees with
  Python on the few programs used below: the syntax check rejects a lone vertical tab and
  an unclosed call; \<open>print(42)\<close> writes to the stream bound to \<open>sys.stdout\<close>;
  \<open>print(1/0)\<close> raises; a long sleep runs into the deadline; \<open>return ''\<close> returns
  the empty string; any other text is treated like the empty entry point, which returns
  \<open>None\<close> and writes nothing.
\<close>

definition entry_point :: "string \<Rightarrow> string" where
  "entry_point body = ''async def __polytool_main__():'' @ nl @ body @ nl @ ''    pass'' @ nl"

definition return_empty :: string where
  "return_empty = ''return '' @ apos @ apos"

definition toy_rt :: "unit pyrt" where
  "toy_rt =
     \<lparr>ast_parse = (\<lambda>code.
        if code = [CHR 0x0B]
        then Some (Exn SyntaxError ''invalid non-printable character U+000B (<unknown>, line 1)'')
        else if code = ''print(''
        then Some (Exn SyntaxError (apos @ ''('' @ apos @ '' was never closed (<unknown>, line 1)''))
        else None),
      exec_await = (\<lambda>wrapped namespace timeout w.
        if wrapped = entry_point ''    print(42)''
        then (Inr PyNone,
              w\<lparr>buffers := (buffers w)(sys_stdout w := buffers w (sys_stdout w) @ ''42'' @ nl)\<rparr>)
        else if wrapped = entry_point ''    print(1/0)''
        then (Inl (Exn (OtherException ''ZeroDivisionError'') ''division by zero''), w)
        else if wrapped = entry_point ''    await asyncio.sleep(3600)''
        then (Inl (Exn TimeoutError []), w)
        else if wrapped = entry_point (''    '' @ return_empty)
        then (Inr (PyStr []), w)
        else (Inr PyNone, w)),
      time_start = 0,
      time_end = 1,
      str_timeout = (\<lambda>t. if t = 60 then ''60'' else ''?'')\<rparr>"

definition world0 :: "unit world" where
  "world0 = \<lparr>sys_stdout = 1, sys_stderr = 2, buffers = (\<lambda>r. []), next_obj = 3, globals = ()\<rparr>"


text \<open>
  Python's \<open>str\<close> on the values the examples use: a string is returned as it is,
  \<open>None\<close> and the booleans by name; a placeholder stands for the rest.
\<close>

fun toy_str :: "pyval \<Rightarrow> string" where
  "toy_str (PyStr s) = s"
| "toy_str PyNone = ''None''"
| "toy_str (PyBool b) = (if b then ''True'' else ''False'')"
| "toy_str v = ''<object>''"

text \<open>
  An environment for the agent loop: a decoder that agrees with \<open>json.loads\<close> on the
  two texts the examples use, the empty object and the empty text (which is not valid
  JSON), and the signature of a tool without parameters.
\<close>

definition toy_env :: "unit pyenv" where
  "toy_env =
     \<lparr>json_loads = (\<lambda>s. if s = ''{}'' then Inr (PyDict [])
                          else Inl (Exn JSONDecodeError ''Expecting value: line 1 column 1 (char 0)'')),
      py_str = toy_str,
      get_signature = (\<lambda>t. Inr (''async def '' @ name t @ ''() -> Any''))\<rparr>"

text \<open>
  Three model backends that request one tool call on every turn: \<open>search\<close> with the
  arguments \<open>{}\<close>, \<open>search\<close> with an empty argument text, and the unknown tool
  \<open>nope\<close>.
\<close>

definition requesting :: "string \<Rightarrow> string \<Rightarrow> unit backend" where
  "requesting tool_name arguments =
     (\<lambda>litellm_messages litellm_tools w.
        (Inr \<lparr>choices = [\<lparr>raw_content = None,
                           raw_tool_calls = Some [\<lparr>raw_id = ''call_1'', raw_name = tool_name,
                                                   raw_arguments = arguments\<rparr>]\<rparr>],
               response_usage = Some \<lparr>prompt_tokens = 10, completion_tokens = 5,
                                       raw_total_tokens = 15\<rparr>\<rparr>, w))"

definition toy_agent :: "unit backend \<Rightarrow> unit Agent" where
  "toy_agent backend =
     \<lparr>model = ''gpt-4o'', system_prompt = None, enable_ptc = False, agent_sandbox_type = None,
      max_iterations = 2, provider = backend, registry = [(''search'', search_tool)]\<rparr>"

text \<open>
  A tool with an effect on the rest of the process state (it counts its calls), and a
  runtime for the one program \<open>await bump()\<close>, which calls the name \<open>bump\<close> of the
  namespace without arguments; any other text is treated like the empty entry point.
\<close>

definition bump_tool :: "nat world Tool" where
  "bump_tool = \<lparr>name = ''bump'', description = ''Count one call'', parameters = [],
     source = NATIVE,
     executor = Some (\<lambda>kwargs w. (Inr PyNone, w\<lparr>globals := Suc (globals w)\<rparr>))\<rparr>"

definition calling_rt :: "nat pyrt" where
  "calling_rt =
     \<lparr>ast_parse = (\<lambda>code. None),
      exec_await = (\<lambda>wrapped namespace timeout w.
        if wrapped = entry_point ''    await bump()''
        then (case map_of namespace ''bump'' of
                Some (ToolWrapper f) \<Rightarrow> f [] w
              | _ \<Rightarrow> (Inl (Exn (OtherException ''NameError'')
                             (''name '' @ apos @ ''bump'' @ apos @ '' is not defined'')), w))
        else (Inr PyNone, w)),
      time_start = 0,
      time_end = 1,
      str_timeout = (\<lambda>t. if t = 60 then ''60'' else ''?'')\<rparr>"

definition world1 :: "nat world" where
  "world1 = \<lparr>sys_stdout = 1, sys_stderr = 2, buffers = (\<lambda>r. []), next_obj = 3, globals = 0\<rparr>"

text \<open>A tool whose executor ends the process: it raises \<open>SystemExit(1)\<close>.\<close>

definition quit_tool :: "unit Tool" where
  "quit_tool = \<lparr>name = ''quit'', description = ''Leave'', parameters = [], source = NATIVE,
     executor = Some (\<lambda>kwargs w. (Inl (Exn (BaseOnly ''SystemExit'') ''1''), w))\<rparr>"

definition quitting_agent :: "unit Agent" where
  "quitting_agent =
     \<lparr>model = ''gpt-4o'', system_prompt = None, enable_ptc = False, agent_sandbox_type = None,
      max_iterations = 2, provider = requesting ''quit'' ''{}'', registry = [(''quit'', quit_tool)]\<rparr>"

section \<open>Properties of Tool and ToolRegistry\<close>

lemma update_fresh_lookup: "map_of (AList.update k v al) k = Some v"
  by (simp add: update_conv')

text \<open>
  C3. Registering under a name that the registry already holds fails with the
  duplicate-name \<open>ToolError\<close>, whether a Tool or a decorated callable carrying a Tool is
  handed in, and leaves the registry as it was, so the name still maps to the Tool
  registered first. A register that succeeds returns the very Tool it was handed (for a
  decorated callable, the Tool attached to it), and the registry then maps the Tool's
  name to it.
\<close>

theorem register_duplicate_rejected:
  "(register_resolve x = Inr t \<and> map_of tools (name t) = Some t0 \<longrightarrow>
      ToolRegistry_register x tools =
        (Inl (Exn ToolError (''Tool '' @ apos @ name t @ apos @ '' already registered'')), tools)
      \<and> is_ToolError (Exn ToolError (''Tool '' @ apos @ name t @ apos @ '' already registered''))
      \<and> map_of (snd (ToolRegistry_register x tools)) (name t) = Some t0)
   \<and> (ToolRegistry_register x tools = (Inr t', tools') \<longrightarrow>
      register_resolve x = Inr t' \<and> map_of tools' (name t') = Some t'
      \<and> ToolRegistry_get tools' (name t') = Inr t')"
proof (intro conjI impI)
  assume h: "register_resolve x = Inr t \<and> map_of tools (name t) = Some t0"
  then have "name t \<in> set (map fst tools)"
    by (metis map_of_eq_None_iff option.distinct(1) set_map)
  with h show dup: "ToolRegistry_register x tools =
      (Inl (Exn ToolError (''Tool '' @ apos @ name t @ apos @ '' already registered'')), tools)"
    by (simp add: ToolRegistry_register_def)
  from h dup show "map_of (snd (ToolRegistry_register x tools)) (name t) = Some t0"
    by simp
  show "is_ToolError (Exn ToolError (''Tool '' @ apos @ name t @ apos @ '' already registered''))"
    by (simp add: is_ToolError_def)
next
  assume ok: "ToolRegistry_register x tools = (Inr t', tools')"
  then show r: "register_resolve x = Inr t'"
    by (auto simp: ToolRegistry_register_def split: sum.splits if_splits)
  from ok r have "tools' = AList.update (name t') t' tools"
    by (auto simp: ToolRegistry_register_def split: sum.splits if_splits)
  then show m: "map_of tools' (name t') = Some t'"
    by (simp add: update_fresh_lookup)
  then show "ToolRegistry_get tools' (name t') = Inr t'"
    by (simp add: ToolRegistry_get_def)
qed

theorem register_duplicate_rejected_witness:
  "ToolRegistry_register (IsTool search_tool) [] = (Inr search_tool, [(''search'', search_tool)])
   \<and> ToolRegistry_register (IsTool search_tool2) [(''search'', search_tool)] =
       (Inl (Exn ToolError (''Tool '' @ apos @ ''search'' @ apos @ '' already registered'')),
        [(''search'', search_tool)])
   \<and> ToolRegistry_get [(''search'', search_tool)] ''search'' = Inr search_tool"
proof -
  have n1: "name search_tool = ''search''" and n2: "name search_tool2 = ''search''"
    by (simp_all add: search_tool_def search_tool2_def)
  have first: "ToolRegistry_register (IsTool search_tool) ([] :: unit registry)
      = (Inr search_tool, [(''search'', search_tool)])"
    by (simp add: ToolRegistry_register_def register_resolve_def n1)
  have r2: "register_resolve (IsTool search_tool2) = Inr search_tool2"
    by (simp add: register_resolve_def)
  have look: "map_of [(''search'', search_tool)] (name search_tool2) = Some search_tool"
    by (simp add: n2)
  from register_duplicate_rejected
    [of "IsTool search_tool2" search_tool2 "[(''search'', search_tool)]" search_tool
        search_tool "[(''search'', search_tool)]"]
    r2 look first n1 n2
  show ?thesis
    by (simp add: ToolRegistry_get_def)
qed

text \<open>
  C7 as the specification states it fails: the error raised by \<open>Tool.execute\<close> on a Tool
  without executor is a \<open>ValueError\<close>, which is not of the \<open>ToolError\<close> kind.
\<close>

theorem execute_unbound_not_ToolError:
  "\<not> is_ToolError (projl (fst (Tool_execute search_tool2 [] ())))
   \<and> fst (Tool_execute search_tool2 [] ()) =
       Inl (Exn ValueError (''Tool '' @ apos @ ''search'' @ apos @ '' has no executor''))"
  by (simp add: Tool_execute_def search_tool2_def is_ToolError_def)

text \<open>
  C7, amended. For every Tool whose executor is unbound, \<open>Tool.execute\<close> with any
  keyword arguments that the call can bind (none of them is named \<open>self\<close>) raises the
  built-in \<open>ValueError\<close> with the message \<open>Tool '<name>' has no executor\<close>, and
  changes nothing.
\<close>

theorem execute_unbound_raises_ValueError:
  assumes "''self'' \<notin> set (map fst kwargs)"
  shows "Tool_execute (t\<lparr>executor := None\<rparr>) kwargs w =
     (Inl (Exn ValueError (''Tool '' @ apos @ name t @ apos @ '' has no executor'')), w)"
  using assms by (simp add: Tool_execute_def)

theorem execute_unbound_raises_ValueError_witness:
  "Tool_execute search_tool2 [(''query'', PyStr ''tokyo'')] () =
     (Inl (Exn ValueError (''Tool '' @ apos @ ''search'' @ apos @ '' has no executor'')), ())"
proof -
  have k: "''self'' \<notin> set (map fst [(''query'', PyStr ''tokyo'')])"
    by simp
  have t: "search_tool2\<lparr>executor := None\<rparr> = search_tool2"
    by (simp add: search_tool2_def)
  have n: "name search_tool2 = ''search''"
    by (simp add: search_tool2_def)
  from execute_unbound_raises_ValueError[OF k, of search_tool2 "()"] t n show ?thesis
    by simp
qed

section \<open>Properties of schema synthesis\<close>

lemma schema_loop_other:
  "schema_loop hints ps props req = Inr (props', req') \<Longrightarrow> n \<notin> pname ` set ps \<Longrightarrow>
   map_of props' n = map_of props n"
proof (induction ps arbitrary: props req)
  case Nil
  then show ?case by simp
next
  case (Cons p ps)
  then show ?case
    by (auto simp: Let_def update_conv' split: if_splits sum.splits option.splits)
qed

lemma schema_loop_required:
  "schema_loop hints ps props req = Inr (props', req') \<Longrightarrow>
   set req' = set req \<union> {pname p | p. p \<in> set ps \<and> \<not> skipped p \<and> pdefault p = None}"
proof (induction ps arbitrary: props req)
  case Nil
  then show ?case by simp
next
  case (Cons p ps)
  show ?case
  proof (cases "skipped p")
    case True
    with Cons show ?thesis by auto
  next
    case False
    then show ?thesis using Cons
      by (auto simp: Let_def split: sum.splits option.splits)
  qed
qed

lemma schema_loop_default:
  "schema_loop hints ps props req = Inr (props', req') \<Longrightarrow> distinct (map pname ps) \<Longrightarrow>
   p \<in> set ps \<Longrightarrow> \<not> skipped p \<Longrightarrow> pdefault p = Some d \<Longrightarrow>
   \<exists>s. map_of props' (pname p) = Some (PyDict s) \<and> map_of s ''default'' = Some d"
proof (induction ps arbitrary: props req)
  case Nil
  then show ?case by simp
next
  case (Cons q ps)
  show ?case
  proof (cases "q = p")
    case True
    from Cons.prems(2) True have notin: "pname p \<notin> pname ` set ps" by auto
    from Cons.prems(1,4,5) True obtain s1 where
      rest: "schema_loop hints ps
               (AList.update (pname p) (PyDict (AList.update ''default'' d s1)) props) req
             = Inr (props', req')"
      by (auto simp: Let_def split: sum.splits)
    from schema_loop_other[OF rest notin] show ?thesis
      by (simp add: update_conv')
  next
    case False
    with Cons.prems have pin: "p \<in> set ps" by simp
    from Cons.prems(2) have d: "distinct (map pname ps)" by simp
    from Cons.prems(1) obtain props1 req1 where
      "schema_loop hints ps props1 req1 = Inr (props', req')"
      by (auto simp: Let_def split: if_splits sum.splits option.splits)
    from Cons.IH[OF this d pin Cons.prems(4,5)] show ?thesis .
  qed
qed

lemma generate_schema_shape:
  assumes "generate_schema func = Inr schema" and "fn_signature func = Inr sig"
  obtains hints props req where
    "schema_loop hints sig [] [] = Inr (props, req)"
    "schema_properties schema = props"
    "schema_required schema = PyStr ` set req"
proof -
  from assms obtain hints props req where
    loop: "schema_loop hints sig [] [] = Inr (props, req)" and
    sch: "schema = [(''type'', PyStr ''object''), (''properties'', PyDict props)]
            @ (if req \<noteq> [] then [(''required'', PyList (map PyStr req))] else [])"
    by (auto simp: generate_schema_def split: sum.splits if_splits)
  from sch have "schema_properties schema = props"
    by (simp add: schema_properties_def)
  moreover from sch have "schema_required schema = PyStr ` set req"
    by (simp add: schema_required_def)
  ultimately show ?thesis using loop that by blast
qed

text \<open>
  C8 as the specification states it fails for a parameter named \<open>cls\<close>: it is neither
  variadic nor \<open>self\<close> and has no default, yet the schema of \<open>def f(cls)\<close> has no
  required entry at all.
\<close>

theorem required_misses_cls_parameter:
  "generate_schema cls_fn = Inr [(''type'', PyStr ''object''), (''properties'', PyDict [])]
   \<and> fn_signature cls_fn = Inr [\<lparr>pname = ''cls'', pkind = POSITIONAL_OR_KEYWORD, pdefault = None\<rparr>]
   \<and> ''cls'' \<noteq> ''self''
   \<and> PyStr ''cls'' \<notin> schema_required [(''type'', PyStr ''object''), (''properties'', PyDict [])]"
  by (simp add: generate_schema_def cls_fn_def skipped_def schema_required_def)

text \<open>
  C8, amended. When schema synthesis returns a schema, every parameter of the signature
  that is not variadic and is named neither \<open>self\<close> nor \<open>cls\<close> is in the schema's
  required set if and only if it has no default, and when it has a default its property
  schema carries that default. (The names of a signature are distinct.)
\<close>

theorem required_iff_no_default:
  assumes "generate_schema func = Inr schema"
    and "fn_signature func = Inr sig"
    and "distinct (map pname sig)"
    and "p \<in> set sig"
    and "pname p \<notin> {''self'', ''cls''}"
    and "pkind p \<notin> {VAR_POSITIONAL, VAR_KEYWORD}"
  shows "(PyStr (pname p) \<in> schema_required schema \<longleftrightarrow> pdefault p = None)
    \<and> (\<forall>d. pdefault p = Some d \<longrightarrow>
          (\<exists>s. map_of (schema_properties schema) (pname p) = Some (PyDict s)
               \<and> map_of s ''default'' = Some d))"
proof -
  from assms(1,2) obtain hints props req where
    loop: "schema_loop hints sig [] [] = Inr (props, req)" and
    props: "schema_properties schema = props" and
    req: "schema_required schema = PyStr ` set req"
    by (rule generate_schema_shape)
  from assms(5,6) have ns: "\<not> skipped p"
    by (simp add: skipped_def)
  have inj: "inj_on pname (set sig)"
    using assms(3) by (simp add: distinct_map)
  have "set req = {pname q | q. q \<in> set sig \<and> \<not> skipped q \<and> pdefault q = None}"
    using schema_loop_required[OF loop] by simp
  then have "pname p \<in> set req \<longleftrightarrow> (\<exists>q \<in> set sig. pname q = pname p \<and> \<not> skipped q \<and> pdefault q = None)"
    by (simp add: Bex_def) metis
  also have "\<dots> \<longleftrightarrow> pdefault p = None"
    using inj assms(4) ns by (auto dest: inj_onD)
  finally have first: "PyStr (pname p) \<in> schema_required schema \<longleftrightarrow> pdefault p = None"
    by (auto simp: req)
  have second: "\<exists>s. map_of (schema_properties schema) (pname p) = Some (PyDict s)
      \<and> map_of s ''default'' = Some d" if "pdefault p = Some d" for d
    using schema_loop_default[OF loop assms(3,4) ns that] by (simp add: props)
  from first second show ?thesis by blast
qed

theorem required_iff_no_default_witness:
  "PyStr ''name'' \<in> schema_required
      [(''type'', PyStr ''object''),
       (''properties'', PyDict [(''name'', PyDict [(''type'', PyStr ''string'')]),
          (''times'', PyDict [(''type'', PyStr ''integer''), (''default'', PyInt 2)])]),
       (''required'', PyList [PyStr ''name''])]
   \<and> PyStr ''times'' \<notin> schema_required
      [(''type'', PyStr ''object''),
       (''properties'', PyDict [(''name'', PyDict [(''type'', PyStr ''string'')]),
          (''times'', PyDict [(''type'', PyStr ''integer''), (''default'', PyInt 2)])]),
       (''required'', PyList [PyStr ''name''])]
   \<and> generate_schema greet_fn = Inr
      [(''type'', PyStr ''object''),
       (''properties'', PyDict [(''name'', PyDict [(''type'', PyStr ''string'')]),
          (''times'', PyDict [(''type'', PyStr ''integer''), (''default'', PyInt 2)])]),
       (''required'', PyList [PyStr ''name''])]"
proof -
  let ?sig = "[\<lparr>pname = ''name'', pkind = POSITIONAL_OR_KEYWORD, pdefault = None\<rparr>,
        \<lparr>pname = ''times'', pkind = POSITIONAL_OR_KEYWORD, pdefault = Some (PyInt 2)\<rparr>,
        \<lparr>pname = ''args'', pkind = VAR_POSITIONAL, pdefault = None\<rparr>,
        \<lparr>pname = ''kwargs'', pkind = VAR_KEYWORD, pdefault = None\<rparr>]"
  let ?schema = "[(''type'', PyStr ''object''),
       (''properties'', PyDict [(''name'', PyDict [(''type'', PyStr ''string'')]),
          (''times'', PyDict [(''type'', PyStr ''integer''), (''default'', PyInt 2)])]),
       (''required'', PyList [PyStr ''name''])]"
  have g: "generate_schema greet_fn = Inr ?schema"
    by (simp add: generate_schema_def greet_fn_def skipped_def)
  have s: "fn_signature greet_fn = Inr ?sig"
    by (simp add: greet_fn_def)
  have d: "distinct (map pname ?sig)"
    by simp
  from required_iff_no_default
    [OF g s d, of "\<lparr>pname = ''name'', pkind = POSITIONAL_OR_KEYWORD, pdefault = None\<rparr>"]
  have a: "PyStr ''name'' \<in> schema_required ?schema" by simp
  from required_iff_no_default
    [OF g s d, of "\<lparr>pname = ''times'', pkind = POSITIONAL_OR_KEYWORD, pdefault = Some (PyInt 2)\<rparr>"]
  have b: "PyStr ''times'' \<notin> schema_required ?schema" by simp
  from a b g show ?thesis by simp
qed

text \<open>
  C9. Schema synthesis through the decorator is not total: \<open>inspect.signature\<close> is called
  outside any handler, so decorating the built-in \<open>dict\<close> raises its \<open>ValueError\<close> and
  no Tool is built, whereas \<open>_normalize_callable\<close> catches the same failure and falls
  back to the empty object schema.
\<close>

theorem decorator_raises_on_unintrospectable:
  "generate_schema dict_builtin =
     Inl (Exn ValueError (''no signature found for builtin type <class '' @ apos @ ''dict'' @ apos @ ''>''))
   \<and> tool_decorator None None dict_builtin =
     Inl (Exn ValueError (''no signature found for builtin type <class '' @ apos @ ''dict'' @ apos @ ''>''))
   \<and> map_option parameters (projr_opt (normalize_callable dict_builtin None None)) =
     Some [(''type'', PyStr ''object''), (''properties'', PyDict [])]"
  by (simp add: generate_schema_def tool_decorator_def normalize_callable_def dict_builtin_def
      set_executor_def projr_opt_def Let_def)

section \<open>Properties of the restricted sandbox\<close>

lemma replicate4: "replicate 4 c = [c, c, c, c]"
  by (simp add: numeral_eq_Suc)

lemma strip_Nil: "strip [] = []"
  by (simp add: strip_def lstrip_def rstrip_def)

lemma wrap_code_blank:
  assumes "list_all isspace code"
  shows "wrap_code code = entry_point ''    pass''"
proof -
  from assms have "dropWhile isspace (rev code) = []"
    by (simp add: list_all_iff)
  then have r: "rstrip code = []"
    by (simp add: rstrip_def)
  have i: "indent [] 4 = []"
    by (simp add: indent_def strip_Nil)
  show ?thesis
    by (simp add: wrap_code_def entry_point_def r i strip_Nil)
qed

lemma wrap_print42: "wrap_code ''print(42)'' = entry_point ''    print(42)''"
  by (simp add: wrap_code_def entry_point_def indent_def rstrip_def strip_def lstrip_def
      isspace_def nl_def replicate4)

lemma wrap_div0: "wrap_code ''print(1/0)'' = entry_point ''    print(1/0)''"
  by (simp add: wrap_code_def entry_point_def indent_def rstrip_def strip_def lstrip_def
      isspace_def nl_def replicate4)

lemmas toy_eval =
  RestrictedSandbox_execute_def toy_rt_def world0_def execute_code_def new_StringIO_def
  getvalue_def timeout_or_def Let_def is_SyntaxError_def is_TimeoutError_def

lemma run_print42:
  "fst (RestrictedSandbox_execute toy_rt 60 ''print(42)'' None None world0) =
     Inr \<lparr>success = True, stdout = ''42'' @ nl, stderr = [], return_value = PyNone,
          error = None, execution_time_ms = 1000\<rparr>"
  by (simp add: toy_eval wrap_print42 entry_point_def nl_def)


lemma run_div0:
  "fst (RestrictedSandbox_execute toy_rt 60 ''print(1/0)'' None None world0) =
     Inr \<lparr>success = False, stdout = [], stderr = [], return_value = PyNone,
          error = Some ''ZeroDivisionError: division by zero'', execution_time_ms = 1000\<rparr>"
  by (simp add: toy_eval wrap_div0 entry_point_def nl_def)


text \<open>
  C5. Every result that \<open>RestrictedSandbox.execute\<close> returns with the success flag
  false carries an error message, and the message is not empty. The fields \<open>stdout\<close>
  and \<open>stderr\<close> of a result are strings by their type: absent is not a value they have.
\<close>

theorem failure_carries_error:
  assumes "RestrictedSandbox_execute rt self_timeout code tools timeout w = (Inr r, w')"
    and "\<not> success r"
  shows "\<exists>m. error r = Some m \<and> m \<noteq> []"
  using assms
  by (auto simp: RestrictedSandbox_execute_def Let_def
      split: option.splits if_splits prod.splits sum.splits)

theorem failure_carries_error_witness:
  "\<exists>r. fst (RestrictedSandbox_execute toy_rt 60 ''print(1/0)'' None None world0) = Inr r
     \<and> \<not> success r \<and> (\<exists>m. error r = Some m \<and> m \<noteq> [])"
proof -
  let ?r = "\<lparr>success = False, stdout = [], stderr = [], return_value = PyNone,
          error = Some ''ZeroDivisionError: division by zero'', execution_time_ms = 1000\<rparr>"
  have ev: "RestrictedSandbox_execute toy_rt 60 ''print(1/0)'' None None world0 =
      (Inr ?r, snd (RestrictedSandbox_execute toy_rt 60 ''print(1/0)'' None None world0))"
    using run_div0 by (metis prod.collapse)
  have ns: "\<not> success ?r" by simp
  from failure_carries_error[OF ev ns] run_div0 ns show ?thesis by blast
qed

lemma wrap_bump: "wrap_code ''await bump()'' = entry_point ''    await bump()''"
  by (simp add: wrap_code_def entry_point_def indent_def rstrip_def strip_def lstrip_def
      isspace_def nl_def replicate4)

lemma namespace_bump:
  "\<exists>f. map_of (build_namespace [bump_tool]) ''bump'' = Some (ToolWrapper f)
     \<and> (\<forall>w. f [] w = (Inr PyNone, w\<lparr>globals := Suc (globals w)\<rparr>))"
  by (simp add: build_namespace_def update_conv' make_tool_wrapper_def Tool_execute_def
      bump_tool_def)

text \<open>
  C6 as the specification states it fails in its last part: the program \<open>await bump()\<close>
  runs with the tool \<open>bump\<close> injected and succeeds, the two streams are restored, and
  the counter that the tool keeps outside the streams is left changed.
\<close>

theorem executed_code_effects_remain:
  "fst (RestrictedSandbox_execute calling_rt 60 ''await bump()'' (Some [bump_tool]) None world1) =
     Inr \<lparr>success = True, stdout = [], stderr = [], return_value = PyNone,
          error = None, execution_time_ms = 1000\<rparr>
   \<and> sys_stdout (snd (RestrictedSandbox_execute calling_rt 60 ''await bump()'' (Some [bump_tool])
         None world1)) = sys_stdout world1
   \<and> globals world1 = 0
   \<and> globals (snd (RestrictedSandbox_execute calling_rt 60 ''await bump()'' (Some [bump_tool])
         None world1)) = 1"
proof -
  from namespace_bump obtain f where
    ns: "map_of (build_namespace [bump_tool]) ''bump'' = Some (ToolWrapper f)" and
    f: "\<And>w. f [] w = (Inr PyNone, w\<lparr>globals := Suc (globals w)\<rparr>)"
    by blast
  show ?thesis
    by (simp add: RestrictedSandbox_execute_def calling_rt_def world1_def execute_code_def
        new_StringIO_def getvalue_def timeout_or_def Let_def wrap_bump ns f)
qed

text \<open>
  C6, amended. On every path of \<open>RestrictedSandbox.execute\<close> that reaches execution (the
  syntax check passed), whatever the executed code does and however it ends: the state
  afterwards is the state the executed code left, with \<open>sys.stdout\<close> and \<open>sys.stderr\<close>
  bound again to the streams that were in place before the call; a result that is
  returned carries the whole text of the two capture streams (the objects allocated first
  and second by the call); and when the executed code of this run changes nothing but
  the text of streams, leaving every stream other than the two captures as it was, then
  nothing other than the captured streams is left modified: the rest of the process state
  and every other stream are as before, and the two captures are the only new objects.
\<close>

theorem streams_restored:
  assumes "ast_parse rt code = None"
    and "RestrictedSandbox_execute rt self_timeout code tools timeout w = (out, w')"
    and "w_red = w\<lparr>buffers := (buffers w)(next_obj w := [], Suc (next_obj w) := []),
                   next_obj := Suc (Suc (next_obj w)),
                   sys_stdout := next_obj w, sys_stderr := Suc (next_obj w)\<rparr>"
    and "exec_await rt (wrap_code code) (build_namespace (case tools of None \<Rightarrow> [] | Some ts \<Rightarrow> ts))
           (timeout_or timeout self_timeout) w_red = (r, w_run)"
  shows "w' = w_run\<lparr>sys_stdout := sys_stdout w, sys_stderr := sys_stderr w\<rparr>
    \<and> sys_stdout w' = sys_stdout w \<and> sys_stderr w' = sys_stderr w
    \<and> (\<forall>res. out = Inr res \<longrightarrow>
          stdout res = buffers w_run (next_obj w) \<and> stderr res = buffers w_run (Suc (next_obj w)))
    \<and> (\<forall>b. w_run = w_red\<lparr>buffers := b\<rparr>
             \<and> (\<forall>x. x \<noteq> next_obj w \<and> x \<noteq> Suc (next_obj w) \<longrightarrow> b x = buffers w x)
        \<longrightarrow> w' = w\<lparr>buffers := b, next_obj := Suc (Suc (next_obj w))\<rparr>
          \<and> globals w' = globals w
          \<and> (\<forall>x. x \<noteq> next_obj w \<and> x \<noteq> Suc (next_obj w) \<longrightarrow> buffers w' x = buffers w x))"
proof -
  let ?n = "next_obj w"
  from assms have fin: "w' = w_run\<lparr>sys_stdout := sys_stdout w, sys_stderr := sys_stderr w\<rparr>"
    by (simp add: RestrictedSandbox_execute_def Let_def new_StringIO_def execute_code_def
        split: prod.splits)
  then have a: "sys_stdout w' = sys_stdout w \<and> sys_stderr w' = sys_stderr w"
    by simp
  from assms have b: "out = Inr res \<Longrightarrow>
      stdout res = buffers w_run ?n \<and> stderr res = buffers w_run (Suc ?n)" for res
    by (auto simp: RestrictedSandbox_execute_def Let_def new_StringIO_def execute_code_def
        getvalue_def split: prod.splits sum.splits if_splits)
  have c: "w' = w\<lparr>buffers := b, next_obj := Suc (Suc ?n)\<rparr>
          \<and> globals w' = globals w
          \<and> (\<forall>x. x \<noteq> ?n \<and> x \<noteq> Suc ?n \<longrightarrow> buffers w' x = buffers w x)"
    if h: "w_run = w_red\<lparr>buffers := b\<rparr>
             \<and> (\<forall>x. x \<noteq> ?n \<and> x \<noteq> Suc ?n \<longrightarrow> b x = buffers w x)" for b
    using fin h assms(3) by simp
  from fin a b c show ?thesis by blast
qed

theorem streams_restored_witness:
  "sys_stdout (snd (RestrictedSandbox_execute toy_rt 60 ''print(42)'' None None world0)) = 1
   \<and> sys_stderr (snd (RestrictedSandbox_execute toy_rt 60 ''print(42)'' None None world0)) = 2
   \<and> (\<exists>r. fst (RestrictedSandbox_execute toy_rt 60 ''print(42)'' None None world0) = Inr r
         \<and> stdout r = ''42'' @ nl)
   \<and> snd (RestrictedSandbox_execute toy_rt 60 ''print(42)'' None None world0) =
       world0\<lparr>buffers := (\<lambda>x. [])(3 := ''42'' @ nl, 4 := []), next_obj := 5\<rparr>
   \<and> globals (snd (RestrictedSandbox_execute toy_rt 60 ''print(42)'' None None world0)) = ()"
proof -
  let ?X = "RestrictedSandbox_execute toy_rt 60 ''print(42)'' None None world0"
  let ?red = "world0\<lparr>buffers := (buffers world0)(next_obj world0 := [], Suc (next_obj world0) := []),
                   next_obj := Suc (Suc (next_obj world0)),
                   sys_stdout := next_obj world0, sys_stderr := Suc (next_obj world0)\<rparr>"
  let ?b = "(\<lambda>x. [])(3 := ''42'' @ nl, 4 := []) :: nat \<Rightarrow> string"
  have p: "ast_parse toy_rt ''print(42)'' = None"
    by (simp add: toy_rt_def)
  have e: "?X = (fst ?X, snd ?X)"
    by simp
  have run: "exec_await toy_rt (wrap_code ''print(42)'')
      (build_namespace (case None of None \<Rightarrow> [] | Some ts \<Rightarrow> ts)) (timeout_or None 60) ?red
      = (Inr PyNone, ?red\<lparr>buffers := ?b\<rparr>)"
    by (simp add: toy_rt_def wrap_print42 world0_def fun_upd_twist)
  have same: "\<forall>x. x \<noteq> next_obj world0 \<and> x \<noteq> Suc (next_obj world0) \<longrightarrow> ?b x = buffers world0 x"
    by (simp add: world0_def)
  from streams_restored[OF p e refl run] same run_print42
  show ?thesis
    by (simp add: world0_def)
qed

text \<open>
  C10 as the specification states it fails: a lone vertical tab is a code string of
  whitespace only, the syntax check rejects it, and the result is a failure.
\<close>

theorem blank_code_rejected_by_syntax_check:
  "list_all isspace [CHR 0x0B]
   \<and> strip [CHR 0x0B] = []
   \<and> fst (RestrictedSandbox_execute toy_rt 60 [CHR 0x0B] None None world0) =
       Inr \<lparr>success = False, stdout = [], stderr = [], return_value = PyNone,
            error = Some ''Syntax error: invalid non-printable character U+000B (<unknown>, line 1)'',
            execution_time_ms = 1000\<rparr>"
  by (simp add: toy_eval isspace_def strip_def lstrip_def rstrip_def)

text \<open>
  C10, amended. For every code string that is empty or contains only whitespace, the
  text handed to the interpreter is the entry point whose body is two \<open>pass\<close>
  statements. When the syntax check accepts the string and that entry point runs to
  completion under the deadline in effect, returning \<open>None\<close> and writing nothing,
  \<open>execute\<close> returns a success result with empty stdout, empty stderr and the return
  value \<open>None\<close>.
\<close>

theorem blank_code_succeeds:
  assumes "list_all isspace code"
    and "ast_parse rt code = None"
    and "\<forall>ns w0. exec_await rt (entry_point ''    pass'') ns (timeout_or timeout self_timeout) w0
           = (Inr PyNone, w0)"
  shows "wrap_code code = ''async def __polytool_main__():'' @ nl @ ''    pass'' @ nl @ ''    pass'' @ nl
    \<and> fst (RestrictedSandbox_execute rt self_timeout code tools timeout w) =
        Inr \<lparr>success = True, stdout = [], stderr = [], return_value = PyNone, error = None,
             execution_time_ms = (time_end rt - time_start rt) * 1000\<rparr>"
proof -
  have wc: "wrap_code code = entry_point ''    pass''"
    using assms(1) by (rule wrap_code_blank)
  then have first: "wrap_code code =
      ''async def __polytool_main__():'' @ nl @ ''    pass'' @ nl @ ''    pass'' @ nl"
    by (simp add: entry_point_def)
  have second: "fst (RestrictedSandbox_execute rt self_timeout code tools timeout w) =
        Inr \<lparr>success = True, stdout = [], stderr = [], return_value = PyNone, error = None,
             execution_time_ms = (time_end rt - time_start rt) * 1000\<rparr>"
    using assms(2,3)
    by (simp add: RestrictedSandbox_execute_def Let_def new_StringIO_def execute_code_def
        getvalue_def wc)
  from first second show ?thesis by simp
qed

theorem blank_code_succeeds_witness:
  "list_all isspace ('' '' @ nl @ ''  '')
   \<and> fst (RestrictedSandbox_execute toy_rt 60 ('' '' @ nl @ ''  '') None None world0) =
        Inr \<lparr>success = True, stdout = [], stderr = [], return_value = PyNone, error = None,
             execution_time_ms = 1000\<rparr>"
proof -
  have b: "list_all isspace ('' '' @ nl @ ''  '')"
    by (simp add: isspace_def nl_def)
  have p: "ast_parse toy_rt ('' '' @ nl @ ''  '') = None"
    by (simp add: toy_rt_def nl_def)
  have r: "\<forall>ns w0. exec_await toy_rt (entry_point ''    pass'') ns (timeout_or None 60) w0
           = (Inr PyNone, w0)"
    by (simp add: toy_rt_def entry_point_def nl_def return_empty_def apos_def)
  from blank_code_succeeds[OF b p r, of None world0] b show ?thesis
    by (simp add: toy_rt_def)
qed

section \<open>Properties of the execute_code tool\<close>



section \<open>Properties of the agent loop\<close>

text \<open>
  The loop follows the specification's record of a run: where that record exists, the
  inner loop appends exactly its answers and counts its calls, and the outer loop returns
  the sentinel with the turns' messages and the sums of their usage.
\<close>

lemma dispatch_follows_spec_answers:
  "spec_answers env tools tcs w = Some (ms, w') \<Longrightarrow>
   dispatch_tool_calls env tools tcs st w =
     (Inr \<lparr>conversation = conversation st @ ms,
           total_usage = (total_usage st)
             \<lparr>usage_tool_calls := usage_tool_calls (total_usage st)
                  + int (length (filter (\<lambda>tc. \<not> is_ptc tc) tcs)),
              ptc_executions := ptc_executions (total_usage st)
                  + int (length (filter is_ptc tcs))\<rparr>,
           st_tool_calls_made = st_tool_calls_made st + int (length tcs),
           st_ptc_used = (st_ptc_used st \<or> list_ex is_ptc tcs)\<rparr>, w')"
proof (induction tcs arbitrary: st w ms)
  case Nil
  then show ?case by simp
next
  case (Cons tc tcs)
  from Cons.prems obtain args r w1 ms' where
    j: "json_loads env (tc_arguments tc) = Inr args" and
    c: "call_registry_execute tools (tc_name tc) args w = (r, w1)" and
    ok: "\<not> (case r of Inl e \<Rightarrow> \<not> is_Exception e | Inr v \<Rightarrow> False)" and
    rest: "spec_answers env tools tcs w1 = Some (ms', w')" and
    ms: "ms = spec_tool_message env tc r # ms'"
    by (auto split: sum.splits prod.splits if_splits option.splits)
  let ?st1 = "\<lparr>conversation = conversation st @ [spec_tool_message env tc r],
               total_usage = (if is_ptc tc
                      then (total_usage st)\<lparr>ptc_executions := ptc_executions (total_usage st) + 1\<rparr>
                      else (total_usage st)\<lparr>usage_tool_calls := usage_tool_calls (total_usage st) + 1\<rparr>),
               st_tool_calls_made = st_tool_calls_made st + 1,
               st_ptc_used = (if is_ptc tc then True else st_ptc_used st)\<rparr>"
  have one: "dispatch_tool_call env tools tc st w = (Inr ?st1, w1)"
    using j c ok
    by (cases r)
      (simp_all add: dispatch_tool_call_def Let_def spec_tool_message_def is_ptc_def
        split: pyval.splits)
  show ?case
    using one Cons.IH[OF rest, of ?st1] ms
    by (simp add: is_ptc_def)
qed

lemma all_calls_Cons: "all_calls (t # ts) = turn_calls t @ all_calls ts"
  by (simp add: all_calls_def)

lemma history_Cons: "history (t # ts) = turn_response t # turn_answers t @ history ts"
  by (simp add: history_def)

lemma run_loop_follows_spec_turns:
  "spec_turns env agent n (conversation st) w = Some (ts, w') \<Longrightarrow>
   run_loop env agent n st w =
     (Inr \<lparr>output_text = ''[Max iterations reached]'',
           usage = (total_usage st)
             \<lparr>input_tokens := input_tokens (total_usage st)
                  + sum_list (map (\<lambda>t. input_tokens (turn_usage t)) ts),
              output_tokens := output_tokens (total_usage st)
                  + sum_list (map (\<lambda>t. output_tokens (turn_usage t)) ts),
              total_tokens := total_tokens (total_usage st)
                  + sum_list (map (\<lambda>t. total_tokens (turn_usage t)) ts),
              usage_tool_calls := usage_tool_calls (total_usage st)
                  + int (length (filter (\<lambda>tc. \<not> is_ptc tc) (all_calls ts))),
              ptc_executions := ptc_executions (total_usage st)
                  + int (length (filter is_ptc (all_calls ts)))\<rparr>,
           messages = conversation st @ history ts,
           tool_calls_made = st_tool_calls_made st + int (length (all_calls ts)),
           ptc_used = (st_ptc_used st \<or> list_ex is_ptc (all_calls ts))\<rparr>, w')"
proof (induction n arbitrary: st w ts)
  case 0
  then show ?case by (simp add: all_calls_def history_def)
next
  case (Suc n)
  from Suc.prems obtain response u w1 tcs ms w2 ts' where
    g: "generate (provider agent) (conversation st) (get_all (registry agent)) w
          = (Inr (response, u), w1)" and
    tc: "tool_calls response = Some tcs" and ne: "tcs \<noteq> []" and
    an: "spec_answers env (registry agent) tcs w1 = Some (ms, w2)" and
    rest: "spec_turns env agent n (conversation st @ response # ms) w2 = Some (ts', w')" and
    ts: "ts = \<lparr>turn_response = response, turn_usage = u, turn_answers = ms\<rparr> # ts'"
    by (auto split: sum.splits prod.splits if_splits option.splits)
  let ?st1 = "st\<lparr>total_usage := (total_usage st)
                          \<lparr>input_tokens := input_tokens (total_usage st) + input_tokens u,
                           output_tokens := output_tokens (total_usage st) + output_tokens u,
                           total_tokens := total_tokens (total_usage st) + total_tokens u\<rparr>,
                       conversation := conversation st @ [response]\<rparr>"
  let ?st2 = "\<lparr>conversation = conversation ?st1 @ ms,
           total_usage = (total_usage ?st1)
             \<lparr>usage_tool_calls := usage_tool_calls (total_usage ?st1)
                  + int (length (filter (\<lambda>tc. \<not> is_ptc tc) tcs)),
              ptc_executions := ptc_executions (total_usage ?st1)
                  + int (length (filter is_ptc tcs))\<rparr>,
           st_tool_calls_made = st_tool_calls_made ?st1 + int (length tcs),
           st_ptc_used = (st_ptc_used ?st1 \<or> list_ex is_ptc tcs)\<rparr>"
  have d: "dispatch_tool_calls env (registry agent) tcs ?st1 w1 = (Inr ?st2, w2)"
    by (rule dispatch_follows_spec_answers[OF an])
  have c2: "conversation ?st2 = conversation st @ response # ms"
    by simp
  have step: "run_loop env agent (Suc n) st w = run_loop env agent n ?st2 w2"
    using g tc ne d by (simp add: Let_def)
  have calls: "turn_calls \<lparr>turn_response = response, turn_usage = u, turn_answers = ms\<rparr> = tcs"
    using tc by (simp add: turn_calls_def)
  from rest c2 have "spec_turns env agent n (conversation ?st2) w2 = Some (ts', w')"
    by simp
  from Suc.IH[OF this] step show ?case
    by (simp add: ts all_calls_Cons history_Cons calls)
qed

lemma generate_role:
  "generate acompletion ms tools w = (Inr (response, u), w1) \<Longrightarrow> role response = ''assistant''"
  by (auto simp: generate_def response_to_message_def Let_def
      split: prod.splits sum.splits list.splits)

lemma spec_answers_shape:
  "spec_answers env tools tcs w = Some (ms, w') \<Longrightarrow>
   map role ms = map (\<lambda>tc. ''tool'') tcs
   \<and> map tool_call_id ms = map (\<lambda>tc. Some (tc_id tc)) tcs
   \<and> map msg_name ms = map (\<lambda>tc. Some (tc_name tc)) tcs"
proof (induction tcs arbitrary: w ms)
  case Nil
  then show ?case by simp
next
  case (Cons tc tcs)
  then show ?case
    by (auto simp: spec_tool_message_def split: sum.splits prod.splits if_splits option.splits)
qed

lemma spec_turns_shape:
  "spec_turns env agent n conv w = Some (ts, w') \<Longrightarrow>
   length ts = n
   \<and> (\<forall>t \<in> set ts. role (turn_response t) = ''assistant'' \<and> turn_calls t \<noteq> []
         \<and> map role (turn_answers t) = map (\<lambda>tc. ''tool'') (turn_calls t)
         \<and> map tool_call_id (turn_answers t) = map (\<lambda>tc. Some (tc_id tc)) (turn_calls t)
         \<and> map msg_name (turn_answers t) = map (\<lambda>tc. Some (tc_name tc)) (turn_calls t))"
proof (induction n arbitrary: conv w ts)
  case 0
  then show ?case by simp
next
  case (Suc n)
  from Suc.prems obtain response u w1 tcs ms w2 ts' where
    g: "generate (provider agent) conv (get_all (registry agent)) w = (Inr (response, u), w1)" and
    tc: "tool_calls response = Some tcs" and ne: "tcs \<noteq> []" and
    an: "spec_answers env (registry agent) tcs w1 = Some (ms, w2)" and
    rest: "spec_turns env agent n (conv @ response # ms) w2 = Some (ts', w')" and
    ts: "ts = \<lparr>turn_response = response, turn_usage = u, turn_answers = ms\<rparr> # ts'"
    by (auto split: sum.splits prod.splits if_splits option.splits)
  from Suc.IH[OF rest] generate_role[OF g] spec_answers_shape[OF an] tc ne
  show ?case
    by (simp add: ts turn_calls_def)
qed

text \<open>
  The record of a run exists for every number of iterations when the backend answers
  every request with at least one tool call whose arguments decode and no call through
  the registry raises outside \<open>Exception\<close>.
\<close>

lemma spec_answers_defined:
  assumes B: "\<forall>fn args w0 e w1. call_registry_execute tools fn args w0 = (Inl e, w1) \<longrightarrow> is_Exception e"
    and j: "\<forall>tc \<in> set tcs. \<exists>v. json_loads env (tc_arguments tc) = Inr v"
  shows "\<exists>ms w'. spec_answers env tools tcs w = Some (ms, w')"
  using j
proof (induction tcs arbitrary: w)
  case Nil
  then show ?case by simp
next
  case (Cons tc tcs)
  from Cons.prems obtain v where v: "json_loads env (tc_arguments tc) = Inr v" by auto
  obtain r w1 where c: "call_registry_execute tools (tc_name tc) v w = (r, w1)"
    by (cases "call_registry_execute tools (tc_name tc) v w")
  have ok: "\<not> (case r of Inl e \<Rightarrow> \<not> is_Exception e | Inr v \<Rightarrow> False)"
  proof (cases r)
    case (Inl e)
    with B c have "is_Exception e" by blast
    with Inl show ?thesis by simp
  next
    case (Inr v)
    then show ?thesis by simp
  qed
  from Cons.prems have "\<forall>tc \<in> set tcs. \<exists>v. json_loads env (tc_arguments tc) = Inr v" by simp
  from Cons.IH[OF this, of w1] obtain ms w' where "spec_answers env tools tcs w1 = Some (ms, w')"
    by blast
  with v c ok show ?case by simp
qed

lemma spec_turns_defined:
  assumes A: "\<forall>lm lt w0. \<exists>rm rest ru w1 rtcs.
                provider agent lm lt w0 = (Inr \<lparr>choices = rm # rest, response_usage = ru\<rparr>, w1)
                \<and> raw_tool_calls rm = Some rtcs \<and> rtcs \<noteq> []
                \<and> (\<forall>tc \<in> set rtcs. \<exists>v. json_loads env (raw_arguments tc) = Inr v)"
    and B: "\<forall>fn args w0 e w1. call_registry_execute (registry agent) fn args w0 = (Inl e, w1)
                \<longrightarrow> is_Exception e"
  shows "\<exists>ts w'. spec_turns env agent n conv w = Some (ts, w')"
proof (induction n arbitrary: conv w)
  case 0
  show ?case by simp
next
  case (Suc n)
  let ?lm = "map message_to_dict conv"
  let ?lt = "if get_all (registry agent) = [] then None
             else Some (map to_openai_schema (get_all (registry agent)))"
  from A obtain rm rest ru w1 rtcs where
    be: "provider agent ?lm ?lt w = (Inr \<lparr>choices = rm # rest, response_usage = ru\<rparr>, w1)" and
    tc: "raw_tool_calls rm = Some rtcs" and ne: "rtcs \<noteq> []" and
    js: "\<forall>tc \<in> set rtcs. \<exists>v. json_loads env (raw_arguments tc) = Inr v"
    by blast
  let ?tcs = "map (\<lambda>tc. \<lparr>tc_id = raw_id tc, tc_type = ''function'',
                     tc_name = raw_name tc, tc_arguments = raw_arguments tc\<rparr>) rtcs"
  obtain response u where
    g: "generate (provider agent) conv (get_all (registry agent)) w = (Inr (response, u), w1)" and
    rt: "tool_calls response = Some ?tcs"
    using be tc ne by (simp add: generate_def response_to_message_def Let_def)
  have js': "\<forall>tc \<in> set ?tcs. \<exists>v. json_loads env (tc_arguments tc) = Inr v"
    using js by simp
  from spec_answers_defined[OF B js', of w1] obtain ms w2 where
    an: "spec_answers env (registry agent) ?tcs w1 = Some (ms, w2)"
    by blast
  from Suc.IH[of "conv @ response # ms" w2] obtain ts w' where
    "spec_turns env agent n (conv @ response # ms) w2 = Some (ts, w')"
    by blast
  with g rt ne an show ?case by simp
qed

lemma dispatch_tool_calls_append:
  "dispatch_tool_calls env tools (pre @ tcs) st w =
     (case dispatch_tool_calls env tools pre st w of
        (Inl e, w') \<Rightarrow> (Inl e, w')
      | (Inr st', w') \<Rightarrow> dispatch_tool_calls env tools tcs st' w')"
  by (induction pre arbitrary: st w) (auto split: prod.splits sum.splits)

text \<open>
  C2 as the specification states it fails: the handler is \<open>except Exception\<close>, so an
  executor fault that is not derived from \<open>Exception\<close>, here \<open>SystemExit\<close>, leaves
  \<open>Agent.run\<close>.
\<close>

theorem exit_signal_leaves_run:
  "fst (Agent_run toy_env quitting_agent ''hi'' None ()) = Inl (Exn (BaseOnly ''SystemExit'') ''1'')
   \<and> call_registry_execute (registry quitting_agent) ''quit'' (PyDict []) () =
       (Inl (Exn (BaseOnly ''SystemExit'') ''1''), ())"
  by (simp add: Agent_run_def seed_conversation_def build_system_prompt_def quitting_agent_def
      toy_env_def get_all_def quit_tool_def Let_def numeral_2_eq_2 generate_def requesting_def
      response_to_message_def dispatch_tool_call_def call_registry_execute_def
      ToolRegistry_execute_def ToolRegistry_get_def Tool_execute_def)

text \<open>
  C2, amended. For every tool call requested by the model during \<open>Agent.run\<close> (the call
  \<open>tool_call\<close> of an iteration, after the calls \<open>pre\<close> before it were dispatched), if
  its arguments decode and executing it through the registry raises an error derived from
  \<open>Exception\<close> (the \<open>ToolError\<close> of an unknown tool name, the \<open>ValueError\<close> of an
  unbound executor, a \<open>TypeError\<close> of the call, whatever an executor or the sandbox
  raises), the error does not propagate: a tool message with the content
  \<open>Error: <message>\<close>, the identifier of the call and the name of the tool is appended to
  the conversation, and the loop continues with the calls that remain and then with the
  next iteration. \<open>run_loop\<close> is \<open>Agent.run\<close> from any iteration on; the last part
  states the same of \<open>Agent.run\<close> itself for its first iteration.
\<close>

theorem tool_error_becomes_message:
  assumes "generate (provider agent) (conversation st0) (get_all (registry agent)) w0
             = (Inr (response, u), w1)"
    and "tool_calls response = Some (pre @ tool_call # rest)"
    and "dispatch_tool_calls env (registry agent) pre
           (st0\<lparr>total_usage := (total_usage st0)
                    \<lparr>input_tokens := input_tokens (total_usage st0) + input_tokens u,
                     output_tokens := output_tokens (total_usage st0) + output_tokens u,
                     total_tokens := total_tokens (total_usage st0) + total_tokens u\<rparr>,
                 conversation := conversation st0 @ [response]\<rparr>) w1 = (Inr st, w)"
    and "json_loads env (tc_arguments tool_call) = Inr func_args"
    and "call_registry_execute (registry agent) (tc_name tool_call) func_args w = (Inl e, w')"
    and "is_Exception e"
  shows "\<exists>st'. dispatch_tool_call env (registry agent) tool_call st w = (Inr st', w')
     \<and> conversation st' = conversation st @
           [\<lparr>role = ''tool'', content = Some (''Error: '' @ exn_str e), tool_calls = None,
             tool_call_id = Some (tc_id tool_call), msg_name = Some (tc_name tool_call)\<rparr>]
     \<and> dispatch_tool_calls env (registry agent) (tool_call # rest) st w
         = dispatch_tool_calls env (registry agent) rest st' w'
     \<and> run_loop env agent (Suc n) st0 w0 =
         (case dispatch_tool_calls env (registry agent) rest st' w' of
            (Inl e2, w2) \<Rightarrow> (Inl e2, w2)
          | (Inr st2, w2) \<Rightarrow> run_loop env agent n st2 w2)
     \<and> (\<forall>prompt msgs.
           seed_conversation env agent prompt msgs = Inr (conversation st0)
           \<and> st0 = \<lparr>conversation = conversation st0, total_usage = Usage_default,
                    st_tool_calls_made = 0, st_ptc_used = False\<rparr>
           \<and> nat (max_iterations agent) = Suc n
           \<longrightarrow> Agent_run env agent prompt msgs w0 =
                 (case dispatch_tool_calls env (registry agent) rest st' w' of
                    (Inl e2, w2) \<Rightarrow> (Inl e2, w2)
                  | (Inr st2, w2) \<Rightarrow> run_loop env agent n st2 w2))"
proof -
  let ?m = "\<lparr>role = ''tool'', content = Some (''Error: '' @ exn_str e), tool_calls = None,
             tool_call_id = Some (tc_id tool_call), msg_name = Some (tc_name tool_call)\<rparr>"
  from assms(4,5,6) obtain st' where
    one: "dispatch_tool_call env (registry agent) tool_call st w = (Inr st', w')" and
    conv: "conversation st' = conversation st @ [?m]"
    by (simp add: dispatch_tool_call_def Let_def)
  have cont: "dispatch_tool_calls env (registry agent) (tool_call # rest) st w
         = dispatch_tool_calls env (registry agent) rest st' w'"
    using one by simp
  have all: "dispatch_tool_calls env (registry agent) (pre @ tool_call # rest)
           (st0\<lparr>total_usage := (total_usage st0)
                    \<lparr>input_tokens := input_tokens (total_usage st0) + input_tokens u,
                     output_tokens := output_tokens (total_usage st0) + output_tokens u,
                     total_tokens := total_tokens (total_usage st0) + total_tokens u\<rparr>,
                 conversation := conversation st0 @ [response]\<rparr>) w1
         = dispatch_tool_calls env (registry agent) rest st' w'"
    using assms(3) cont by (simp add: dispatch_tool_calls_append)
  have loop: "run_loop env agent (Suc n) st0 w0 =
         (case dispatch_tool_calls env (registry agent) rest st' w' of
            (Inl e2, w2) \<Rightarrow> (Inl e2, w2)
          | (Inr st2, w2) \<Rightarrow> run_loop env agent n st2 w2)"
    using assms(1,2) all by (simp add: Let_def)
  have run: "Agent_run env agent prompt msgs w0 =
         (case dispatch_tool_calls env (registry agent) rest st' w' of
            (Inl e2, w2) \<Rightarrow> (Inl e2, w2)
          | (Inr st2, w2) \<Rightarrow> run_loop env agent n st2 w2)"
    if "seed_conversation env agent prompt msgs = Inr (conversation st0)
           \<and> st0 = \<lparr>conversation = conversation st0, total_usage = Usage_default,
                    st_tool_calls_made = 0, st_ptc_used = False\<rparr>
           \<and> nat (max_iterations agent) = Suc n" for prompt msgs
  proof -
    from that have "Agent_run env agent prompt msgs w0 = run_loop env agent (Suc n) st0 w0"
      by (simp add: Agent_run_def)
    with loop show ?thesis by simp
  qed
  from one conv cont loop run show ?thesis by blast
qed

theorem tool_error_becomes_message_witness:
  "\<exists>st'. role (last (conversation st')) = ''tool''
     \<and> content (last (conversation st')) =
         Some (''Error: Tool '' @ apos @ ''nope'' @ apos @ '' not found. Available: search'')
     \<and> tool_call_id (last (conversation st')) = Some ''call_1''
     \<and> msg_name (last (conversation st')) = Some ''nope''
     \<and> Agent_run toy_env (toy_agent (requesting ''nope'' ''{}'')) ''hi'' None ()
         = run_loop toy_env (toy_agent (requesting ''nope'' ''{}'')) (Suc 0) st' ()"
proof -
  let ?ag = "toy_agent (requesting ''nope'' ''{}'')"
  let ?tc = "\<lparr>tc_id = ''call_1'', tc_type = ''function'', tc_name = ''nope'', tc_arguments = ''{}''\<rparr>"
  let ?e = "Exn ToolError (''Tool '' @ apos @ ''nope'' @ apos @ '' not found. Available: search'')"
  let ?resp = "\<lparr>role = ''assistant'', content = None, tool_calls = Some [?tc],
                tool_call_id = None, msg_name = None\<rparr>"
  let ?u = "Usage_default\<lparr>input_tokens := 10, output_tokens := 5, total_tokens := 15\<rparr>"
  obtain conv where seed: "seed_conversation toy_env ?ag ''hi'' None = Inr conv"
    by (simp add: seed_conversation_def build_system_prompt_def toy_agent_def toy_env_def
        get_all_def search_tool_def Let_def)
  let ?st0 = "\<lparr>conversation = conv, total_usage = Usage_default, st_tool_calls_made = 0,
              st_ptc_used = False\<rparr>"
  let ?st1 = "?st0\<lparr>total_usage := (total_usage ?st0)
                    \<lparr>input_tokens := input_tokens (total_usage ?st0) + input_tokens ?u,
                     output_tokens := output_tokens (total_usage ?st0) + output_tokens ?u,
                     total_tokens := total_tokens (total_usage ?st0) + total_tokens ?u\<rparr>,
                 conversation := conversation ?st0 @ [?resp]\<rparr>"
  have g: "generate (provider ?ag) (conversation ?st0) (get_all (registry ?ag)) ()
      = (Inr (?resp, ?u), ())"
    by (simp add: generate_def toy_agent_def requesting_def response_to_message_def Let_def)
  have t: "tool_calls ?resp = Some ([] @ ?tc # [])"
    by simp
  have p: "dispatch_tool_calls toy_env (registry ?ag) [] ?st1 () = (Inr ?st1, ())"
    by simp
  have j: "json_loads toy_env (tc_arguments ?tc) = Inr (PyDict [])"
    by (simp add: toy_env_def)
  have c: "call_registry_execute (registry ?ag) (tc_name ?tc) (PyDict []) () = (Inl ?e, ())"
    by (simp add: call_registry_execute_def ToolRegistry_execute_def ToolRegistry_get_def
        toy_agent_def)
  have x: "is_Exception ?e"
    by simp
  from tool_error_becomes_message[OF g t p j c x, where n = "Suc 0"] obtain st' where
    cv: "conversation st' = conversation ?st1 @
           [\<lparr>role = ''tool'', content = Some (''Error: '' @ exn_str ?e), tool_calls = None,
             tool_call_id = Some (tc_id ?tc), msg_name = Some (tc_name ?tc)\<rparr>]" and
    run: "\<forall>prompt msgs.
           seed_conversation toy_env ?ag prompt msgs = Inr (conversation ?st0)
           \<and> ?st0 = \<lparr>conversation = conversation ?st0, total_usage = Usage_default,
                    st_tool_calls_made = 0, st_ptc_used = False\<rparr>
           \<and> nat (max_iterations ?ag) = Suc (Suc 0)
           \<longrightarrow> Agent_run toy_env ?ag prompt msgs () =
                 (case dispatch_tool_calls toy_env (registry ?ag) [] st' () of
                    (Inl e2, w2) \<Rightarrow> (Inl e2, w2)
                  | (Inr st2, w2) \<Rightarrow> run_loop toy_env ?ag (Suc 0) st2 w2)"
    by blast
  have mx: "nat (max_iterations ?ag) = Suc (Suc 0)"
    by (simp add: toy_agent_def)
  from run seed mx have "Agent_run toy_env ?ag ''hi'' None () = run_loop toy_env ?ag (Suc 0) st' ()"
    by simp
  with cv show ?thesis
    by (intro exI[of _ st']) simp
qed

text \<open>
  C1 as the specification states it fails: a model that on every turn requests a tool
  call whose argument text is not valid JSON makes \<open>run\<close> raise on the first
  iteration, since \<open>json.loads\<close> runs outside the handler.
\<close>

theorem malformed_arguments_abort_run:
  "fst (Agent_run toy_env (toy_agent (requesting ''search'' [])) ''hi'' None ()) =
     Inl (Exn JSONDecodeError ''Expecting value: line 1 column 1 (char 0)'')"
  by (simp add: Agent_run_def seed_conversation_def build_system_prompt_def toy_agent_def
      toy_env_def get_all_def search_tool_def Let_def numeral_2_eq_2 generate_def requesting_def
      response_to_message_def dispatch_tool_call_def)

text \<open>
  C1, amended. Let the conversation be seeded, \<open>max_iterations\<close> be non-negative, and
  let the run have its record of \<open>max_iterations\<close> turns: on every iteration the model
  backend answers with at least one tool call, the arguments of every call made decode as
  JSON, and no call made raises outside \<open>Exception\<close>. Then \<open>run\<close> does not raise: after
  exactly \<open>max_iterations\<close> iterations it returns the sentinel output
  \<open>[Max iterations reached]\<close>, with the accumulated usage (the sums of the token counts
  the backend reported, the number of direct calls and of code executions) and the
  message history (the seeded conversation followed, turn by turn, by the model's
  assistant message and one tool message per requested call, in order, tagged with the
  call's identifier and tool name).
\<close>

theorem loop_bound_sentinel:
  assumes "seed_conversation env agent prompt msgs = Inr conv"
    and "0 \<le> max_iterations agent"
    and "spec_turns env agent (nat (max_iterations agent)) conv w = Some (ts, w')"
  shows "Agent_run env agent prompt msgs w =
     (Inr \<lparr>output_text = ''[Max iterations reached]'',
           usage = \<lparr>input_tokens = sum_list (map (\<lambda>t. input_tokens (turn_usage t)) ts),
                    output_tokens = sum_list (map (\<lambda>t. output_tokens (turn_usage t)) ts),
                    total_tokens = sum_list (map (\<lambda>t. total_tokens (turn_usage t)) ts),
                    usage_tool_calls = int (length (filter (\<lambda>tc. \<not> is_ptc tc) (all_calls ts))),
                    ptc_executions = int (length (filter is_ptc (all_calls ts))),
                    estimated_cost_usd = 0, usage_execution_time_ms = 0,
                    estimated_direct_tokens = None\<rparr>,
           messages = conv @ history ts,
           tool_calls_made = int (length (all_calls ts)),
           ptc_used = list_ex is_ptc (all_calls ts)\<rparr>, w')
     \<and> int (length ts) = max_iterations agent
     \<and> (\<forall>t \<in> set ts. role (turn_response t) = ''assistant'' \<and> turn_calls t \<noteq> []
           \<and> map role (turn_answers t) = map (\<lambda>tc. ''tool'') (turn_calls t)
           \<and> map tool_call_id (turn_answers t) = map (\<lambda>tc. Some (tc_id tc)) (turn_calls t)
           \<and> map msg_name (turn_answers t) = map (\<lambda>tc. Some (tc_name tc)) (turn_calls t))"
proof -
  let ?st = "\<lparr>conversation = conv, total_usage = Usage_default, st_tool_calls_made = 0,
             st_ptc_used = False\<rparr>"
  have "spec_turns env agent (nat (max_iterations agent)) (conversation ?st) w = Some (ts, w')"
    using assms(3) by simp
  from run_loop_follows_spec_turns[OF this] assms(1)
  have run: "Agent_run env agent prompt msgs w =
     (Inr \<lparr>output_text = ''[Max iterations reached]'',
           usage = \<lparr>input_tokens = sum_list (map (\<lambda>t. input_tokens (turn_usage t)) ts),
                    output_tokens = sum_list (map (\<lambda>t. output_tokens (turn_usage t)) ts),
                    total_tokens = sum_list (map (\<lambda>t. total_tokens (turn_usage t)) ts),
                    usage_tool_calls = int (length (filter (\<lambda>tc. \<not> is_ptc tc) (all_calls ts))),
                    ptc_executions = int (length (filter is_ptc (all_calls ts))),
                    estimated_cost_usd = 0, usage_execution_time_ms = 0,
                    estimated_direct_tokens = None\<rparr>,
           messages = conv @ history ts,
           tool_calls_made = int (length (all_calls ts)),
           ptc_used = list_ex is_ptc (all_calls ts)\<rparr>, w')"
    by (simp add: Agent_run_def Usage_default_def)
  from spec_turns_shape[OF assms(3)] assms(2)
  have shape: "int (length ts) = max_iterations agent
     \<and> (\<forall>t \<in> set ts. role (turn_response t) = ''assistant'' \<and> turn_calls t \<noteq> []
           \<and> map role (turn_answers t) = map (\<lambda>tc. ''tool'') (turn_calls t)
           \<and> map tool_call_id (turn_answers t) = map (\<lambda>tc. Some (tc_id tc)) (turn_calls t)
           \<and> map msg_name (turn_answers t) = map (\<lambda>tc. Some (tc_name tc)) (turn_calls t))"
    by simp
  from run shape show ?thesis by simp
qed

theorem loop_bound_sentinel_witness:
  "\<exists>res. Agent_run toy_env (toy_agent (requesting ''search'' ''{}'')) ''hi'' None () = (Inr res, ())
     \<and> output_text res = ''[Max iterations reached]''
     \<and> input_tokens (usage res) = 20 \<and> output_tokens (usage res) = 10
     \<and> total_tokens (usage res) = 30
     \<and> usage_tool_calls (usage res) = 2 \<and> ptc_executions (usage res) = 0
     \<and> tool_calls_made res = 2 \<and> \<not> ptc_used res
     \<and> map role (messages res) =
         [''system'', ''user'', ''assistant'', ''tool'', ''assistant'', ''tool'']
     \<and> map content (drop 2 (messages res)) = [None, Some ''found'', None, Some ''found'']"
proof -
  let ?ag = "toy_agent (requesting ''search'' ''{}'')"
  let ?call = "\<lparr>tc_id = ''call_1'', tc_type = ''function'', tc_name = ''search'',
                tc_arguments = ''{}''\<rparr>"
  let ?t = "\<lparr>turn_response = \<lparr>role = ''assistant'', content = None, tool_calls = Some [?call],
                               tool_call_id = None, msg_name = None\<rparr>,
             turn_usage = Usage_default\<lparr>input_tokens := 10, output_tokens := 5, total_tokens := 15\<rparr>,
             turn_answers = [\<lparr>role = ''tool'', content = Some ''found'', tool_calls = None,
                              tool_call_id = Some ''call_1'', msg_name = Some ''search''\<rparr>]\<rparr>"
  obtain conv where seed: "seed_conversation toy_env ?ag ''hi'' None = Inr conv"
    and roles: "map role conv = [''system'', ''user'']"
    by (simp add: seed_conversation_def build_system_prompt_def toy_agent_def toy_env_def
        get_all_def search_tool_def Let_def)
  have mx: "0 \<le> max_iterations ?ag"
    by (simp add: toy_agent_def)
  have tr: "spec_turns toy_env ?ag (nat (max_iterations ?ag)) conv () = Some ([?t, ?t], ())"
    by (simp add: toy_agent_def numeral_2_eq_2 generate_def requesting_def response_to_message_def
        toy_env_def call_registry_execute_def ToolRegistry_execute_def ToolRegistry_get_def
        Tool_execute_def search_tool_def spec_tool_message_def Let_def get_all_def)
  from roles have len: "length conv = 2"
    by (metis length_map length_Cons list.size(3) numeral_2_eq_2)
  from loop_bound_sentinel[OF seed mx tr] roles len show ?thesis
    by (simp add: all_calls_def history_def turn_calls_def is_ptc_def Usage_default_def)
qed

end
